theory Spec2Isabelle
  imports Main
begin

section \<open>Strings as the script uses them\<close>

text \<open>
  The script \<^verbatim>\<open>scripts/auto-release.js\<close> works on JavaScript strings. They are
  modelled as \<^typ>\<open>string\<close>, read as ASCII text. The library methods the script calls
  (\<^verbatim>\<open>trim\<close>, \<^verbatim>\<open>includes\<close> (here \<open>includesStr\<close>), \<^verbatim>\<open>startsWith\<close>, \<^verbatim>\<open>split\<close>, \<^verbatim>\<open>join\<close>, \<^verbatim>\<open>replace\<close> with a
  global one-character pattern) are written out below.
\<close>

definition LF :: char where
  "LF = CHR 0x0A"

definition CR :: char where
  "CR = CHR 0x0D"

definition is_space :: "char \<Rightarrow> bool" where
  "is_space c = (c = CHR 0x20 \<or> c = CHR 0x09 \<or> c = CHR 0x0A \<or> c = CHR 0x0B \<or> c = CHR 0x0C \<or> c = CHR 0x0D)"

definition trim :: "string \<Rightarrow> string" where
  "trim s = rev (dropWhile is_space (rev (dropWhile is_space s)))"

fun startsWith :: "string \<Rightarrow> string \<Rightarrow> bool" where
  "startsWith [] s = True"
| "startsWith (p # ps) [] = False"
| "startsWith (p # ps) (c # cs) = (p = c \<and> startsWith ps cs)"

fun includesStr :: "string \<Rightarrow> string \<Rightarrow> bool" where
  "includesStr p [] = (p = [])"
| "includesStr p (c # cs) = (startsWith p (c # cs) \<or> includesStr p cs)"

fun split_on :: "char \<Rightarrow> string \<Rightarrow> string list" where
  "split_on d [] = [[]]"
| "split_on d (c # cs) =
     (if c = d then [] # split_on d cs
      else (case split_on d cs of [] \<Rightarrow> [[c]] | l # ls \<Rightarrow> (c # l) # ls))"

fun join :: "string \<Rightarrow> string list \<Rightarrow> string" where
  "join sep [] = []"
| "join sep [l] = l"
| "join sep (l # m # ls) = l @ sep @ join sep (m # ls)"

definition replace_all :: "char \<Rightarrow> string \<Rightarrow> string \<Rightarrow> string" where
  "replace_all c r s = concat (map (\<lambda>x. if x = c then r else [x]) s)"

text \<open>\<^verbatim>\<open>escapeShellString\<close>: six global replacements, the backslash first.\<close>

definition escapeShellString :: "string \<Rightarrow> string" where
  "escapeShellString str =
     replace_all CR [CHR 0x5C, CHR ''r'']
       (replace_all LF [CHR 0x5C, CHR ''n'']
         (replace_all (CHR ''$'') [CHR 0x5C, CHR ''$'']
           (replace_all (CHR 0x60) [CHR 0x5C, CHR 0x60]
             (replace_all (CHR 0x22) [CHR 0x5C, CHR 0x22]
               (replace_all (CHR 0x5C) [CHR 0x5C, CHR 0x5C] str)))))"

section \<open>Release notes\<close>

text \<open>
  The loop of \<^verbatim>\<open>generateReleaseNotes\<close> over the lines of the changelog. The flag
  \<^verbatim>\<open>inCurrentVersion\<close> and the array \<^verbatim>\<open>releaseNotes\<close> are the two arguments that
  change; \<^verbatim>\<open>continue\<close> is the recursive call on the rest, \<^verbatim>\<open>break\<close> returns the array.
\<close>

fun collectNotes :: "string \<Rightarrow> bool \<Rightarrow> string list \<Rightarrow> string list \<Rightarrow> string list" where
  "collectNotes version inCurrentVersion releaseNotes [] = releaseNotes"
| "collectNotes version inCurrentVersion releaseNotes (line # rest) =
     (if includesStr ''[Unreleased]'' line \<or> includesStr (''['' @ version @ '']'') line
      then collectNotes version True releaseNotes rest
      else if inCurrentVersion \<and> startsWith ''## ['' line \<and> \<not> includesStr version line
      then releaseNotes
      else if inCurrentVersion \<and> trim line \<noteq> []
      then collectNotes version inCurrentVersion (releaseNotes @ [line]) rest
      else collectNotes version inCurrentVersion releaseNotes rest)"

text \<open>
  \<^verbatim>\<open>generateReleaseNotes\<close> reads the version from the manifest and the changelog from
  the file system; both are arguments here. The changelog is \<^term>\<open>None\<close> when
  \<^verbatim>\<open>fs.existsSync\<close> answers false; a changelog that exists is taken to be readable.
\<close>

definition generateReleaseNotes :: "string \<Rightarrow> string option \<Rightarrow> string" where
  "generateReleaseNotes version changelog =
     (case changelog of
        None \<Rightarrow> ''Release v'' @ version
      | Some text \<Rightarrow>
          (let releaseNotes = collectNotes version False [] (split_on LF text)
           in if length releaseNotes = 0
              then ''Release v'' @ version @ [LF, LF] @ ''See CHANGELOG.md for details.''
              else ''Release v'' @ version @ [LF, LF] @ join [LF] releaseNotes))"

section \<open>JavaScript values and the outside world\<close>

text \<open>
  The values the script holds in its variables: a string, a number (a pull-request number read
  from decoded JSON), \<^verbatim>\<open>null\<close> and \<^verbatim>\<open>undefined\<close>. \<open>truthy\<close> is the test that
  \<^verbatim>\<open>if (x)\<close> and \<^verbatim>\<open>!x\<close> perform.
\<close>

datatype jsval = Null | Undefined | Str string | Num nat

fun truthy :: "jsval \<Rightarrow> bool" where
  "truthy Null = False"
| "truthy Undefined = False"
| "truthy (Str s) = (s \<noteq> [])"
| "truthy (Num n) = (n \<noteq> 0)"

function show_nat :: "nat \<Rightarrow> string" where
  "show_nat n = (if n < 10 then [''0123456789'' ! n] else show_nat (n div 10) @ [''0123456789'' ! (n mod 10)])"
  by pat_completeness auto
termination
  by (relation "measure id") auto

declare show_nat.simps [simp del]

text \<open>What a template literal \<^verbatim>\<open>${x}\<close> and \<^verbatim>\<open>toString\<close> print.\<close>

fun toStr :: "jsval \<Rightarrow> string" where
  "toStr Null = ''null''"
| "toStr Undefined = ''undefined''"
| "toStr (Str s) = s"
| "toStr (Num n) = show_nat n"

text \<open>
  The command lines the script hands to \<^verbatim>\<open>execSync\<close>, one constructor for each; the
  arguments are the interpolated parts. The repository and the base branch are the
  constants of the script (\<^verbatim>\<open>johnnyphilology/scribe\<close>, \<^verbatim>\<open>main\<close>).
\<close>

datatype command =
    GhVersion                          \<comment> \<open>gh version\<close>
  | GhAuthStatus                       \<comment> \<open>gh auth status\<close>
  | GitStatusPorcelain                 \<comment> \<open>git status --porcelain\<close>
  | GitBranchShowCurrent               \<comment> \<open>git branch --show-current\<close>
  | GitLogLastMessage                  \<comment> \<open>git log -1 --pretty=%B\<close>
  | GitPush string                     \<comment> \<open>git push origin <branch>\<close>
  | GhPrList string                    \<comment> \<open>gh pr list --head <branch> --base main --json number,url,title\<close>
  | GhPrListNumber string              \<comment> \<open>gh pr list --head <branch> --base main --json number\<close>
  | GhPrCreate string string string    \<comment> \<open>gh pr create --title <title> --body <body> --base main --head <branch>\<close>
  | GhPrViewStatus string              \<comment> \<open>gh pr view <n> --json state,mergeable,statusCheckRollup\<close>
  | GhPrViewMergeable string           \<comment> \<open>gh pr view <n> --json mergeable,mergeStateStatus\<close>
  | GhPrViewState string               \<comment> \<open>gh pr view <n> --json state\<close>
  | GhPrChecks string                  \<comment> \<open>gh pr checks <n> --json bucket,state,name\<close>
  | GhApiStatusChecks string           \<comment> \<open>gh api repos/.../pulls/<n>/status-checks --jq .statuses[]\<close>
  | GhPrMerge string                   \<comment> \<open>gh pr merge <n> --squash --delete-branch\<close>
  | GitFetchOrigin                     \<comment> \<open>git fetch origin\<close>
  | GitRebaseBase                      \<comment> \<open>git rebase origin/main\<close>
  | GitMergeBase                       \<comment> \<open>git merge origin/main\<close>
  | GitPushForceWithLease string       \<comment> \<open>git push origin <branch> --force-with-lease\<close>
  | GitCheckoutBase                    \<comment> \<open>git checkout main\<close>
  | GitPullOriginMain                  \<comment> \<open>git pull origin main\<close>
  | GitTagList string                  \<comment> \<open>git tag -l <tag>\<close>
  | GhReleaseCreateNotesFile string    \<comment> \<open>gh release create <tag> --title ... --notes-file tmp/release-notes.txt\<close>
  | GhReleaseCreateNotes string string \<comment> \<open>gh release create <tag> --title ... --notes <escaped notes>\<close>

text \<open>
  Everything the script does to the outside world, in the order it does it: a command
  handed to \<^verbatim>\<open>execSync\<close> (whether it then succeeds or not), a timer wait of so many
  milliseconds, and the three writing calls on the file system. Console output is left out.
\<close>

datatype effect =
    Exec command
  | Sleep nat
  | MkdirTmp                 \<comment> \<open>fs.mkdirSync(tmpDir, {recursive: true})\<close>
  | WriteNotesFile string    \<comment> \<open>fs.writeFileSync(tempNotesFile, releaseNotes)\<close>
  | UnlinkNotesFile          \<comment> \<open>fs.unlinkSync(tempNotesFile)\<close>

text \<open>
  The places where the script calls \<^verbatim>\<open>process.exit(1)\<close>, named after the message
  printed just before.
\<close>

datatype failure =
    GhNotInstalled
  | NotAuthenticated
  | UncommittedChanges
  | OnBaseBranch
  | CreateFailedNoExistingPR
  | NoPRNumber
  | ChecksFailedOrTimedOut
  | ConflictsRemain
  | ConflictResolutionFailed
  | MergeFailed

text \<open>
  A piece of the script, run: the effects it performed, and how it ended: it returned a
  value, it called \<^verbatim>\<open>process.exit(1)\<close>, or it threw.
\<close>

datatype 'a res = Ret 'a | Exit failure | Throw

type_synonym 'a io = "effect list \<times> 'a res"

definition ret :: "'a \<Rightarrow> 'a io" where
  "ret a = ([], Ret a)"

definition exit1 :: "failure \<Rightarrow> 'a io" where
  "exit1 f = ([], Exit f)"

definition throw :: "'a io" where
  "throw = ([], Throw)"

definition andThen :: "'a io \<Rightarrow> ('a \<Rightarrow> 'b io) \<Rightarrow> 'b io" where
  "andThen m f =
     (case m of
        (t, Ret a) \<Rightarrow> (case f a of (t', r) \<Rightarrow> (t @ t', r))
      | (t, Exit e) \<Rightarrow> (t, Exit e)
      | (t, Throw) \<Rightarrow> (t, Throw))"

text \<open>\<^verbatim>\<open>try { m } catch { h }\<close>: only a throw reaches the handler, an exit does not.\<close>

definition tryCatch :: "'a io \<Rightarrow> 'a io \<Rightarrow> 'a io" where
  "tryCatch m h =
     (case m of
        (t, Throw) \<Rightarrow> (case h of (t', r) \<Rightarrow> (t @ t', r))
      | (t, r) \<Rightarrow> (t, r))"

definition sleep :: "nat \<Rightarrow> unit io" where
  "sleep ms = ([Sleep ms], Ret ())"

text \<open>
  What \<^verbatim>\<open>execSync\<close> does with a command is the environment's choice: it throws (the
  command exits with a non-zero status), or it returns the standard output.
\<close>

datatype exec_result = Fails | Outputs string

text \<open>
  \<^verbatim>\<open>execCommand(command, {silent, allowFailure})\<close>. With \<^verbatim>\<open>silent\<close> the output is
  piped and returned trimmed; without it the output goes to the terminal, \<^verbatim>\<open>execSync\<close>
  returns \<^verbatim>\<open>null\<close> and \<^verbatim>\<open>result?.trim()\<close> is \<^verbatim>\<open>undefined\<close>. A failure is rethrown
  unless \<^verbatim>\<open>allowFailure\<close> is set, and then \<^verbatim>\<open>null\<close> is returned.
\<close>

definition execCommand :: "command \<Rightarrow> bool \<Rightarrow> bool \<Rightarrow> exec_result \<Rightarrow> jsval io" where
  "execCommand cmd silent allowFailure r =
     ([Exec cmd],
      case r of
        Outputs out \<Rightarrow> Ret (if silent then Str (trim out) else Undefined)
      | Fails \<Rightarrow> if allowFailure then Ret Null else Throw)"

definition helpKeywords :: "string list" where
  "helpKeywords = [''Usage:'', ''USAGE:'', ''Commands:'', ''Options:'', ''FLAGS:'', ''ARGUMENTS:'']"

definition execCommandSafely :: "command \<Rightarrow> bool \<Rightarrow> bool \<Rightarrow> exec_result \<Rightarrow> jsval io" where
  "execCommandSafely cmd silent allowFailure r =
     andThen (execCommand cmd silent allowFailure r) (\<lambda>result.
       case result of
         Str s \<Rightarrow>
           if s \<noteq> [] \<and> list_ex (\<lambda>keyword. includesStr keyword s) helpKeywords
           then (if \<not> allowFailure then throw else ret Null)
           else ret result
       | _ \<Rightarrow> ret result)"

section \<open>Decoded responses\<close>

text \<open>
  The script decodes the output of four kinds of command with \<^verbatim>\<open>JSON.parse\<close> and then
  reads the fields it asked for with \<^verbatim>\<open>--json\<close>. The decoded values are records with
  those fields; the fields the script compares stay strings, as in the source.
\<close>

record pull_request =
  number :: nat
  title :: string
  url :: string

record pr_data =
  state :: string
  mergeable :: string
  mergeStateStatus :: string

record check_result =
  name :: string
  bucket :: string

text \<open>
  What \<^verbatim>\<open>JSON.parse\<close> makes of the output of the two check commands. The script reads
  \<^verbatim>\<open>checks.length\<close> inside the \<^verbatim>\<open>try\<close> and calls \<^verbatim>\<open>checks.filter\<close> after it, so
  three cases differ: \<^verbatim>\<open>JSON.parse\<close> throws, or gives \<^verbatim>\<open>null\<close>, on which the read of
  the length throws inside the \<^verbatim>\<open>try\<close> as well; it gives a value that is not an array
  and whose length is not 0, on which \<^verbatim>\<open>checks.filter\<close> is not a function; it gives the
  list of checks (a value of length 0 is treated by the script as the empty list).
\<close>

datatype decoded_checks = Unparsable | NotAnArray | CheckList "check_result list"

text \<open>
  \<^verbatim>\<open>JSON.parse\<close> is a builtin of the language, not code of the repository: it is a
  parameter of the model, one decoder for each shape the script asks for. A decoder
  answers \<^term>\<open>None\<close> (\<^term>\<open>Unparsable\<close> for the checks) where \<^verbatim>\<open>JSON.parse\<close> throws;
  where it answers with pull requests, with the data of one, or with a list of checks, the
  elements are taken to have the fields that \<^verbatim>\<open>--json\<close> promises.
\<close>

record json_parse =
  parsePullRequests :: "string \<Rightarrow> pull_request list option"
  parsePrData :: "string \<Rightarrow> pr_data option"
  decodeChecks :: "string \<Rightarrow> decoded_checks"


section \<open>Finding or creating the pull request\<close>

definition is_digit :: "char \<Rightarrow> bool" where
  "is_digit c = (c \<in> set ''0123456789'')"

text \<open>
  \<^verbatim>\<open>s.match(/P(\d+)/)?.[1]\<close> for a literal \<open>P\<close>: the digits after the leftmost
  occurrence of \<open>P\<close> that is followed by a digit.
\<close>

fun match_digits_after :: "string \<Rightarrow> string \<Rightarrow> string option" where
  "match_digits_after P [] = None"
| "match_digits_after P (c # cs) =
     (if startsWith P (c # cs) \<and> takeWhile is_digit (drop (length P) (c # cs)) \<noteq> []
      then Some (takeWhile is_digit (drop (length P) (c # cs)))
      else match_digits_after P cs)"

text \<open>\<^verbatim>\<open>s.match(/\/(\d+)$/)?.[1]\<close>: a slash followed by digits only, up to the end.\<close>

fun match_digits_at_end :: "string \<Rightarrow> string option" where
  "match_digits_at_end [] = None"
| "match_digits_at_end (c # cs) =
     (if c = CHR ''/'' \<and> cs \<noteq> [] \<and> list_all is_digit cs
      then Some cs
      else match_digits_at_end cs)"

definition matched :: "string option \<Rightarrow> jsval" where
  "matched m = (case m of None \<Rightarrow> Undefined | Some digits \<Rightarrow> Str digits)"

definition extractPRNumber :: "json_parse \<Rightarrow> string \<Rightarrow> string \<Rightarrow> exec_result \<Rightarrow> jsval io" where
  "extractPRNumber JSON prResult currentBranch listing =
     (let prNumber = matched (match_digits_after ''#'' prResult);
          prNumber = (if \<not> truthy prNumber then matched (match_digits_after ''pull/'' prResult) else prNumber);
          prNumber = (if \<not> truthy prNumber then matched (match_digits_at_end prResult) else prNumber)
      in if \<not> truthy prNumber
         then andThen (execCommand (GhPrListNumber currentBranch) True True listing) (\<lambda>prList.
                if truthy prList
                then (case parsePullRequests JSON (toStr prList) of
                        None \<Rightarrow> ret prNumber
                      | Some prs \<Rightarrow>
                          (case prs of
                             [] \<Rightarrow> ret prNumber
                           | pr # _ \<Rightarrow> ret (Str (show_nat (number pr)))))
                else ret prNumber)
         else ret prNumber)"

definition findExistingPR :: "json_parse \<Rightarrow> string \<Rightarrow> exec_result \<Rightarrow> jsval io" where
  "findExistingPR JSON currentBranch listing =
     andThen (execCommand (GhPrList currentBranch) True True listing) (\<lambda>existingPR.
       if truthy existingPR
       then (case parsePullRequests JSON (toStr existingPR) of
               None \<Rightarrow> ret Null
             | Some prs \<Rightarrow>
                 (case prs of
                    [] \<Rightarrow> ret Null
                  | pr # _ \<Rightarrow> ret (Num (number pr))))
       else ret Null)"

text \<open>
  What the environment answers to the commands of \<^verbatim>\<open>getOrCreatePR\<close>: to the first
  lookup, to the create request, to the lookup by branch inside \<^verbatim>\<open>extractPRNumber\<close>, and
  to the second lookup (only one of the two later calls of \<^verbatim>\<open>findExistingPR\<close> runs).
\<close>

record pr_env =
  firstLookup :: exec_result
  createRequest :: exec_result
  branchLookup :: exec_result
  secondLookup :: exec_result

definition prTitle :: "string \<Rightarrow> string" where
  "prTitle version = ''Release v'' @ version"

definition prBody :: "string \<Rightarrow> string \<Rightarrow> string" where
  "prBody version commitMessage =
     ''Automated release PR for version '' @ version @ [LF, LF] @
     ''**Changes:**'' @ [LF] @ commitMessage @ [LF, LF] @
     ''**Version:** '' @ version @ [LF, LF] @
     ''This PR will be automatically merged once all CI checks pass.''"

definition getOrCreatePR :: "json_parse \<Rightarrow> string \<Rightarrow> string \<Rightarrow> string \<Rightarrow> pr_env \<Rightarrow> jsval io" where
  "getOrCreatePR JSON currentBranch version commitMessage env =
     andThen (findExistingPR JSON currentBranch (firstLookup env)) (\<lambda>prNumber.
       if truthy prNumber then ret prNumber
       else
         andThen (execCommand
                    (GhPrCreate (escapeShellString (prTitle version))
                                (escapeShellString (prBody version commitMessage)) currentBranch)
                    True True (createRequest env)) (\<lambda>prResult.
           if \<not> truthy prResult
           then andThen (findExistingPR JSON currentBranch (secondLookup env)) (\<lambda>prNumber.
                  if \<not> truthy prNumber then exit1 CreateFailedNoExistingPR else ret prNumber)
           else andThen (extractPRNumber JSON (toStr prResult) currentBranch (branchLookup env)) (\<lambda>prNumber.
                  if \<not> truthy prNumber
                  then andThen (findExistingPR JSON currentBranch (secondLookup env)) (\<lambda>prNumber.
                         if \<not> truthy prNumber then exit1 NoPRNumber else ret prNumber)
                  else ret prNumber)))"

section \<open>Waiting for the checks\<close>

definition CHECK_INTERVAL :: nat where
  "CHECK_INTERVAL = 30000"

definition MAX_WAIT_TIME :: nat where
  "MAX_WAIT_TIME = 1800000"

text \<open>
  One pass through the body of the \<^verbatim>\<open>while\<close> loop of \<^verbatim>\<open>waitForChecks\<close> ends in
  \<^verbatim>\<open>return true\<close>, in \<^verbatim>\<open>return false\<close>, or back at the loop head (every such path has
  first awaited \<^verbatim>\<open>sleep(CHECK_INTERVAL)\<close>).
\<close>

datatype step = Return bool | Continue

text \<open>
  What the environment answers in one pass: to the view, the checks and the status API, and
  the time in milliseconds for which the commands of the pass, all together, block the
  script (\<^verbatim>\<open>execSync\<close> is called without a timeout).
\<close>

record cycle_env =
  viewResponse :: exec_result
  checksResponse :: exec_result
  statusApiResponse :: exec_result
  commandTime :: nat

definition sleepAndContinue :: "nat \<Rightarrow> step io" where
  "sleepAndContinue interval = andThen (sleep interval) (\<lambda>_. ret Continue)"

text \<open>
  Lines 251 to 311: the check list is decoded and classified by bucket. The call of
  \<^verbatim>\<open>checks.filter\<close> at line 273 is outside the \<^verbatim>\<open>try\<close>: on a value that is not an
  array it throws, and the error leaves \<^verbatim>\<open>waitForChecks\<close>.
\<close>

definition evaluateChecks :: "json_parse \<Rightarrow> nat \<Rightarrow> pr_data \<Rightarrow> string \<Rightarrow> step io" where
  "evaluateChecks JSON interval prData checksResult =
     (case decodeChecks JSON checksResult of
        Unparsable \<Rightarrow> sleepAndContinue interval
      | NotAnArray \<Rightarrow> throw
      | CheckList checks \<Rightarrow>
          if length checks = 0
          then (if mergeable prData = ''MERGEABLE'' then ret (Return True)
                else sleepAndContinue interval)
          else
            (let pendingChecks = filter (\<lambda>check. bucket check = ''pending'') checks;
                 failedChecks = filter (\<lambda>check. bucket check = ''fail'' \<or> bucket check = ''cancel'') checks;
                 succeededChecks = filter (\<lambda>check. bucket check = ''pass'') checks;
                 skippedChecks = filter (\<lambda>check. bucket check = ''skipping'') checks
             in if length failedChecks > 0 then ret (Return False)
                else if length pendingChecks = 0
                then (if length succeededChecks > 0 \<or> length skippedChecks > 0
                      then ret (Return True)
                      else if mergeable prData = ''MERGEABLE'' then ret (Return True)
                      else sleepAndContinue interval)
                else sleepAndContinue interval))"

text \<open>Lines 181 to 249, then \<open>evaluateChecks\<close>.\<close>

definition pollCycle :: "json_parse \<Rightarrow> nat \<Rightarrow> string \<Rightarrow> cycle_env \<Rightarrow> step io" where
  "pollCycle JSON interval prNumber env =
     andThen (execCommand (GhPrViewStatus prNumber) True True (viewResponse env)) (\<lambda>prStatus.
       if \<not> truthy prStatus then sleepAndContinue interval
       else
         (case parsePrData JSON (toStr prStatus) of
            None \<Rightarrow> sleepAndContinue interval
          | Some prData \<Rightarrow>
              if state prData = ''MERGED'' then ret (Return True)
              else if state prData = ''CLOSED'' then ret (Return False)
              else
                andThen (execCommand (GhPrChecks prNumber) True True (checksResponse env)) (\<lambda>checksResult.
                  if \<not> truthy checksResult
                  then
                    andThen (execCommand (GhApiStatusChecks prNumber) True True (statusApiResponse env)) (\<lambda>checksResult.
                      if \<not> truthy checksResult
                      then (if mergeable prData = ''MERGEABLE'' then ret (Return True)
                            else if mergeable prData = ''CONFLICTING'' then ret (Return False)
                            else sleepAndContinue interval)
                      else evaluateChecks JSON interval prData (toStr checksResult))
                  else evaluateChecks JSON interval prData (toStr checksResult))))"

text \<open>
  The clock. \<^verbatim>\<open>Date.now() - startTime\<close> is the time that has passed since
  \<^verbatim>\<open>startTime\<close> was read: the time the script has waited in \<^verbatim>\<open>sleep\<close> (a
  \<^verbatim>\<open>sleep(ms)\<close> takes \<open>ms\<close> milliseconds) and the time for which its commands have
  blocked it (\<open>commandTime\<close>, pass by pass).
\<close>

fun slept :: "effect list \<Rightarrow> nat" where
  "slept [] = 0"
| "slept (Sleep ms # es) = ms + slept es"
| "slept (e # es) = slept es"

text \<open>
  The \<^verbatim>\<open>while\<close> loop of \<^verbatim>\<open>waitForChecks\<close>, for a wait budget and a poll interval (the
  script fixes them to \<^verbatim>\<open>MAX_WAIT_TIME\<close> and \<^verbatim>\<open>CHECK_INTERVAL\<close>). The environment
  answers the pass numbered \<^verbatim>\<open>retryCount\<close> with \<open>cycles retryCount\<close>. The loop returns
  what \<^verbatim>\<open>waitForChecks\<close> returns together with the reading of the clock at that moment;
  \<^term>\<open>None\<close> is a loop that never returns.
\<close>

partial_function (option) pollLoop ::
  "json_parse \<Rightarrow> nat \<Rightarrow> nat \<Rightarrow> string \<Rightarrow> (nat \<Rightarrow> cycle_env) \<Rightarrow> nat \<Rightarrow> nat \<Rightarrow> effect list
     \<Rightarrow> (bool io \<times> nat) option" where
  "pollLoop JSON maxWait interval prNumber cycles retryCount elapsed effects =
     (if elapsed < maxWait
      then (case pollCycle JSON interval prNumber (cycles (retryCount + 1)) of
              (t, Ret (Return b)) \<Rightarrow>
                Some ((effects @ t, Ret b), elapsed + commandTime (cycles (retryCount + 1)) + slept t)
            | (t, Ret Continue) \<Rightarrow>
                pollLoop JSON maxWait interval prNumber cycles (retryCount + 1)
                  (elapsed + commandTime (cycles (retryCount + 1)) + slept t) (effects @ t)
            | (t, Exit e) \<Rightarrow>
                Some ((effects @ t, Exit e), elapsed + commandTime (cycles (retryCount + 1)) + slept t)
            | (t, Throw) \<Rightarrow>
                Some ((effects @ t, Throw), elapsed + commandTime (cycles (retryCount + 1)) + slept t))
      else Some ((effects, Ret False), elapsed))"

declare pollLoop.simps [code]

record wait_env =
  versionResponse :: exec_result
  cycleResponses :: "nat \<Rightarrow> cycle_env"

definition waitForChecks :: "json_parse \<Rightarrow> string \<Rightarrow> wait_env \<Rightarrow> (bool io \<times> nat) option" where
  "waitForChecks JSON prNumber env =
     (case execCommandSafely GhVersion True True (versionResponse env) of
        (t, Ret ghVersion) \<Rightarrow> pollLoop JSON MAX_WAIT_TIME CHECK_INTERVAL prNumber (cycleResponses env) 0 0 t
      | (t, Exit e) \<Rightarrow> Some ((t, Exit e), 0)
      | (t, Throw) \<Rightarrow> Some ((t, Throw), 0))"

section \<open>Conflicts, merge and release\<close>

record conflict_env =
  fetchResponse :: exec_result
  rebaseResponse :: exec_result
  mergeBaseResponse :: exec_result
  forcePushResponse :: exec_result

definition attemptConflictResolution :: "string \<Rightarrow> conflict_env \<Rightarrow> bool io" where
  "attemptConflictResolution currentBranch env =
     tryCatch
       (andThen (execCommand GitFetchOrigin False False (fetchResponse env)) (\<lambda>_.
        andThen (execCommand GitRebaseBase False True (rebaseResponse env)) (\<lambda>rebaseResult.
        andThen (if rebaseResult = Null
                 then andThen (execCommand GitMergeBase False True (mergeBaseResponse env)) (\<lambda>mergeResult.
                        ret (mergeResult = Null))
                 else ret False) (\<lambda>bothFailed.
          if bothFailed then ret False
          else andThen (execCommand (GitPushForceWithLease currentBranch) False False (forcePushResponse env)) (\<lambda>_.
                 ret True)))))
       (ret False)"

text \<open>What the environment answers after the checks have passed, up to the merge.\<close>

record merge_env =
  mergeableResponse :: exec_result
  conflictEnv :: conflict_env
  updatedResponse :: exec_result
  mergeResponse :: exec_result
  stateResponse :: exec_result

text \<open>Lines 594 to 650 of \<^verbatim>\<open>main\<close>: the mergeable check and the attempt to resolve conflicts.\<close>

definition checkMergeable :: "json_parse \<Rightarrow> string \<Rightarrow> string \<Rightarrow> merge_env \<Rightarrow> unit io" where
  "checkMergeable JSON currentBranch prNumber env =
     andThen (execCommand (GhPrViewMergeable prNumber) True True (mergeableResponse env)) (\<lambda>prStatus.
       if truthy prStatus
       then (case parsePrData JSON (toStr prStatus) of
               None \<Rightarrow> ret ()
             | Some prData \<Rightarrow>
                 if mergeable prData = ''CONFLICTING'' \<or> mergeStateStatus prData = ''DIRTY''
                 then andThen (attemptConflictResolution currentBranch (conflictEnv env)) (\<lambda>resolved.
                        if resolved
                        then andThen (sleep 10000) (\<lambda>_.
                             andThen (execCommand (GhPrViewMergeable prNumber) True True (updatedResponse env)) (\<lambda>updatedStatus.
                               if truthy updatedStatus
                               then (case parsePrData JSON (toStr updatedStatus) of
                                       None \<Rightarrow> ret ()
                                     | Some updatedData \<Rightarrow>
                                         if mergeable updatedData = ''MERGEABLE'' then ret ()
                                         else exit1 ConflictsRemain)
                               else ret ()))
                        else exit1 ConflictResolutionFailed)
                 else ret ())
       else ret ())"

text \<open>
  Lines 652 to 696 of \<^verbatim>\<open>main\<close>: the merge command in a \<^verbatim>\<open>try\<close>, the look at the state
  of the pull request in the \<^verbatim>\<open>catch\<close>, and the exit when \<^verbatim>\<open>mergeSuccessful\<close> is still
  false.
\<close>

definition mergeAttempt :: "json_parse \<Rightarrow> string \<Rightarrow> merge_env \<Rightarrow> bool io" where
  "mergeAttempt JSON prNumber env =
     tryCatch
       (andThen (execCommand (GhPrMerge prNumber) True False (mergeResponse env)) (\<lambda>mergeResult.
          ret True))
       (andThen (execCommand (GhPrViewState prNumber) True True (stateResponse env)) (\<lambda>prStatus.
          if truthy prStatus
          then (case parsePrData JSON (toStr prStatus) of
                  None \<Rightarrow> ret False
                | Some statusData \<Rightarrow>
                    if state statusData = ''MERGED'' then ret True else ret False)
          else ret False))"

definition mergeStep :: "json_parse \<Rightarrow> string \<Rightarrow> merge_env \<Rightarrow> unit io" where
  "mergeStep JSON prNumber env =
     andThen (mergeAttempt JSON prNumber env) (\<lambda>mergeSuccessful.
       if \<not> mergeSuccessful then exit1 MergeFailed else ret ())"

text \<open>
  The manifest: \<^verbatim>\<open>getPackageVersion\<close> returns the version, or throws when the file cannot
  be read or decoded (\<^term>\<open>None\<close>).
\<close>

definition getPackageVersion :: "string option \<Rightarrow> string io" where
  "getPackageVersion manifest = (case manifest of None \<Rightarrow> throw | Some version \<Rightarrow> ret version)"

definition fsCall :: "effect \<Rightarrow> bool \<Rightarrow> unit io" where
  "fsCall e ok = ([e], if ok then Ret () else Throw)"

text \<open>
  What the environment answers in \<^verbatim>\<open>createRelease\<close>. The three writing calls on the file
  system succeed or throw.
\<close>

record release_env =
  checkoutResponse :: exec_result
  pullResponse :: exec_result
  manifestAtRelease :: "string option"
  changelog :: "string option"
  tagListResponse :: exec_result
  tmpDirExists :: bool
  mkdirSucceeds :: bool
  writeSucceeds :: bool
  releaseFromFileResponse :: exec_result
  unlinkSucceeds :: bool
  releaseFromNotesResponse :: exec_result

definition createRelease :: "string \<Rightarrow> release_env \<Rightarrow> unit io" where
  "createRelease version env =
     andThen (execCommand GitCheckoutBase False False (checkoutResponse env)) (\<lambda>_.
     andThen (execCommand GitPullOriginMain False False (pullResponse env)) (\<lambda>_.
     (let tagName = ''v'' @ version in
      andThen (andThen (getPackageVersion (manifestAtRelease env)) (\<lambda>v.
                 ret (generateReleaseNotes v (changelog env)))) (\<lambda>releaseNotes.
      andThen (execCommand (GitTagList tagName) True True (tagListResponse env)) (\<lambda>existingTag.
        if truthy existingTag then ret ()
        else
          tryCatch
            (andThen (if \<not> tmpDirExists env then fsCall MkdirTmp (mkdirSucceeds env) else ret ()) (\<lambda>_.
             andThen (fsCall (WriteNotesFile releaseNotes) (writeSucceeds env)) (\<lambda>_.
             andThen (execCommand (GhReleaseCreateNotesFile tagName) False False (releaseFromFileResponse env)) (\<lambda>_.
             fsCall UnlinkNotesFile (unlinkSucceeds env)))))
            (andThen (execCommand (GhReleaseCreateNotes tagName (escapeShellString releaseNotes))
                        False False (releaseFromNotesResponse env)) (\<lambda>_.
               ret ())))))))"

section \<open>The workflow\<close>

record main_env =
  ghVersionResponse :: exec_result
  authResponse :: exec_result
  statusResponse :: exec_result
  branchResponse :: exec_result
  manifest :: "string option"
  logResponse :: exec_result
  pushResponse :: exec_result
  prEnv :: pr_env
  waitEnv :: wait_env
  mergeEnv :: merge_env
  releaseEnv :: release_env

definition hasUncommittedChanges :: "exec_result \<Rightarrow> bool io" where
  "hasUncommittedChanges r =
     andThen (execCommand GitStatusPorcelain True False r) (\<lambda>status. ret (length (toStr status) > 0))"

definition getCurrentBranch :: "exec_result \<Rightarrow> jsval io" where
  "getCurrentBranch r = execCommand GitBranchShowCurrent True False r"

definition getLatestCommitMessage :: "exec_result \<Rightarrow> jsval io" where
  "getLatestCommitMessage r = execCommand GitLogLastMessage True False r"

text \<open>Lines 539 to 583 of \<^verbatim>\<open>main\<close>: the prerequisites, the push, the pull request.\<close>

definition mainUntilPR :: "json_parse \<Rightarrow> main_env \<Rightarrow> (string \<times> string \<times> string) io" where
  "mainUntilPR JSON env =
     andThen (execCommandSafely GhVersion True True (ghVersionResponse env)) (\<lambda>ghVersion.
       if \<not> truthy ghVersion then exit1 GhNotInstalled
       else
     andThen (execCommand GhAuthStatus True True (authResponse env)) (\<lambda>authStatus.
       if \<not> truthy authStatus then exit1 NotAuthenticated
       else
     andThen (hasUncommittedChanges (statusResponse env)) (\<lambda>uncommitted.
       if uncommitted then exit1 UncommittedChanges
       else
     andThen (getCurrentBranch (branchResponse env)) (\<lambda>currentBranch.
     andThen (getPackageVersion (manifest env)) (\<lambda>version.
     andThen (getLatestCommitMessage (logResponse env)) (\<lambda>commitMessage.
       if currentBranch = Str ''main'' then exit1 OnBaseBranch
       else
     andThen (execCommand (GitPush (toStr currentBranch)) False False (pushResponse env)) (\<lambda>_.
     andThen (getOrCreatePR JSON (toStr currentBranch) version (toStr commitMessage) (prEnv env)) (\<lambda>prNumber.
       ret (toStr currentBranch, version, toStr prNumber)))))))))"

text \<open>Lines 588 to 701 of \<^verbatim>\<open>main\<close>: what follows the wait for the checks.\<close>

definition mainAfterChecks :: "json_parse \<Rightarrow> main_env \<Rightarrow> string \<Rightarrow> string \<Rightarrow> string \<Rightarrow> bool \<Rightarrow> unit io" where
  "mainAfterChecks JSON env currentBranch version prNumber checksPass =
     (if \<not> checksPass then exit1 ChecksFailedOrTimedOut
      else
        andThen (checkMergeable JSON currentBranch prNumber (mergeEnv env)) (\<lambda>_.
        andThen (mergeStep JSON prNumber (mergeEnv env)) (\<lambda>_.
        createRelease version (releaseEnv env))))"

text \<open>
  How the process ends: \<^verbatim>\<open>main\<close> returned (exit code 0), a \<^verbatim>\<open>process.exit(1)\<close> was
  reached, or an error escaped and \<^verbatim>\<open>main().catch\<close> printed it and called
  \<^verbatim>\<open>process.exit(1)\<close>.
\<close>

datatype outcome = Completed | Failed failure | UnexpectedError

fun exit_code :: "outcome \<Rightarrow> nat" where
  "exit_code Completed = 0"
| "exit_code (Failed f) = 1"
| "exit_code UnexpectedError = 1"

fun finish :: "unit io \<Rightarrow> effect list \<times> outcome" where
  "finish (t, Ret u) = (t, Completed)"
| "finish (t, Exit f) = (t, Failed f)"
| "finish (t, Throw) = (t, UnexpectedError)"

definition main :: "json_parse \<Rightarrow> main_env \<Rightarrow> (effect list \<times> outcome) option" where
  "main JSON env =
     (case mainUntilPR JSON env of
        (t, Ret (currentBranch, version, prNumber)) \<Rightarrow>
          (case waitForChecks JSON prNumber (waitEnv env) of
             None \<Rightarrow> None
           | Some (checks, elapsed) \<Rightarrow>
               Some (finish (andThen (t, Ret ()) (\<lambda>_.
                             andThen checks (\<lambda>checksPass.
                               mainAfterChecks JSON env currentBranch version prNumber checksPass)))))
      | (t, Exit f) \<Rightarrow> Some (t, Failed f)
      | (t, Throw) \<Rightarrow> Some (t, UnexpectedError))"

section \<open>Notions used in the statements\<close>

text \<open>
  What \<^verbatim>\<open>execCommand\<close> returns for a response when it is called with \<^verbatim>\<open>silent\<close> and
  \<^verbatim>\<open>allowFailure\<close>: \<^verbatim>\<open>null\<close> for a failed command, the trimmed output otherwise.
\<close>

definition silentOutput :: "exec_result \<Rightarrow> jsval" where
  "silentOutput r = (case r of Fails \<Rightarrow> Null | Outputs out \<Rightarrow> Str (trim out))"


text \<open>A call returned, and what it returned is truthy (for a lookup: a pull-request number).\<close>

definition returnsTruthy :: "jsval io \<Rightarrow> bool" where
  "returnsTruthy m = (case snd m of Ret prNumber \<Rightarrow> truthy prNumber | Exit f \<Rightarrow> False | Throw \<Rightarrow> False)"

text \<open>
  The two tests of the loop of \<^verbatim>\<open>generateReleaseNotes\<close>: a line that switches the
  collecting on (and is itself skipped), and a line at which the collecting stops.
\<close>

definition startsSection :: "string \<Rightarrow> string \<Rightarrow> bool" where
  "startsSection version line =
     (includesStr ''[Unreleased]'' line \<or> includesStr (''['' @ version @ '']'') line)"

definition endsSection :: "string \<Rightarrow> string \<Rightarrow> bool" where
  "endsSection version line =
     (\<not> startsSection version line \<and> startsWith ''## ['' line \<and> \<not> includesStr version line)"

text \<open>
  The look at the pull request after a failed merge command reports it merged: the view
  returned an output, the output was decoded, and the decoded state is \<^verbatim>\<open>MERGED\<close>.
\<close>

definition reportsMerged :: "json_parse \<Rightarrow> exec_result \<Rightarrow> bool" where
  "reportsMerged JSON r =
     (truthy (silentOutput r)
      \<and> (case parsePrData JSON (toStr (silentOutput r)) of
            None \<Rightarrow> False
          | Some statusData \<Rightarrow> state statusData = ''MERGED''))"

section \<open>Sample responses\<close>

text \<open>
  A decoder for the handful of responses that the examples below use, and those responses.
  A field that a response does not carry is the empty string in the decoded record (the
  script compares the fields with non-empty constants only).
\<close>

definition sampleJSON :: json_parse where
  \<open>sampleJSON =
     \<lparr> parsePullRequests = (\<lambda>s.
          if s = ''[]'' then Some []
          else if s = ''[{"number":7}]''
          then Some [\<lparr> number = 7, title = [], url = [] \<rparr>]
          else None),
        parsePrData = (\<lambda>s.
          if s = ''{"mergeable":"MERGEABLE","state":"OPEN"}''
          then Some \<lparr> state = ''OPEN'', mergeable = ''MERGEABLE'', mergeStateStatus = [] \<rparr>
          else if s = ''{"mergeable":"CONFLICTING","state":"OPEN"}''
          then Some \<lparr> state = ''OPEN'', mergeable = ''CONFLICTING'', mergeStateStatus = [] \<rparr>
          else if s = ''{"mergeable":"UNKNOWN","state":"OPEN"}''
          then Some \<lparr> state = ''OPEN'', mergeable = ''UNKNOWN'', mergeStateStatus = [] \<rparr>
          else if s = ''{"mergeStateStatus":"CLEAN","mergeable":"MERGEABLE"}''
          then Some \<lparr> state = [], mergeable = ''MERGEABLE'', mergeStateStatus = ''CLEAN'' \<rparr>
          else if s = ''{"state":"MERGED"}''
          then Some \<lparr> state = ''MERGED'', mergeable = [], mergeStateStatus = [] \<rparr>
          else if s = ''{"state":"OPEN"}''
          then Some \<lparr> state = ''OPEN'', mergeable = [], mergeStateStatus = [] \<rparr>
          else None),
        decodeChecks = (\<lambda>s.
          if s = ''[]'' then CheckList []
          else if s = ''[{"bucket":"pass","name":"test"},{"bucket":"pending","name":"build"}]''
          then CheckList [\<lparr> name = ''test'', bucket = ''pass'' \<rparr>, \<lparr> name = ''build'', bucket = ''pending'' \<rparr>]
          else if s = ''[{"bucket":"pass","name":"test"}]''
          then CheckList [\<lparr> name = ''test'', bucket = ''pass'' \<rparr>]
          else if s = ''{"context":"ci","state":"success"}''
          then NotAnArray
          else Unparsable) \<rparr>\<close>


definition passedCycle :: cycle_env where
  \<open>passedCycle =
     \<lparr> viewResponse = Outputs ''{"mergeable":"MERGEABLE","state":"OPEN"}'',
        checksResponse = Outputs ''[{"bucket":"pass","name":"test"}]'',
        statusApiResponse = Fails, commandTime = 900 \<rparr>\<close>



definition noChecksMergeableCycle :: cycle_env where
  \<open>noChecksMergeableCycle =
     \<lparr> viewResponse = Outputs ''{"mergeable":"MERGEABLE","state":"OPEN"}'',
        checksResponse = Outputs ''[]'',
        statusApiResponse = Fails, commandTime = 900 \<rparr>\<close>

definition unreachableCycle :: cycle_env where
  "unreachableCycle =
     \<lparr> viewResponse = Fails, checksResponse = Fails, statusApiResponse = Fails, commandTime = 0 \<rparr>"

text \<open>Passes in which the hosting service cannot be reached and each try takes nine seconds.\<close>

definition busyCycle :: cycle_env where
  "busyCycle =
     \<lparr> viewResponse = Fails, checksResponse = Fails, statusApiResponse = Fails, commandTime = 9000 \<rparr>"

definition busyCycles :: "nat \<Rightarrow> cycle_env" where
  "busyCycles retryCount = busyCycle"

definition briefCycle :: cycle_env where
  "briefCycle =
     \<lparr> viewResponse = Fails, checksResponse = Fails, statusApiResponse = Fails, commandTime = 19 \<rparr>"

text \<open>A pass in which the status API prints one object, not a list.\<close>

definition objectCycle :: cycle_env where
  \<open>objectCycle =
     \<lparr> viewResponse = Outputs ''{"mergeable":"UNKNOWN","state":"OPEN"}'',
        checksResponse = Fails,
        statusApiResponse = Outputs ''{"context":"ci","state":"success"}'',
        commandTime = 900 \<rparr>\<close>

definition existingPrEnv :: pr_env where
  \<open>existingPrEnv =
     \<lparr> firstLookup = Outputs ''[{"number":7}]'',
        createRequest = Fails, branchLookup = Fails, secondLookup = Fails \<rparr>\<close>

definition laterPrEnv :: pr_env where
  \<open>laterPrEnv =
     \<lparr> firstLookup = Outputs ''[{"number":7}]'',
        createRequest = Outputs ''https://github.com/johnnyphilology/scribe/pull/8'',
        branchLookup = Outputs ''[]'', secondLookup = Outputs ''[]'' \<rparr>\<close>

definition noPrEnv :: pr_env where
  "noPrEnv =
     \<lparr> firstLookup = Outputs ''[]'', createRequest = Fails,
        branchLookup = Fails, secondLookup = Outputs ''[]'' \<rparr>"

definition newPrEnv :: pr_env where
  "newPrEnv =
     \<lparr> firstLookup = Outputs ''[]'',
        createRequest = Outputs ''https://github.com/johnnyphilology/scribe/pull/8'',
        branchLookup = Fails, secondLookup = Fails \<rparr>"

definition sampleChangelog :: string where
  "sampleChangelog =
     join [LF] [''# Changelog'', ''## [Unreleased]'', ''- A'', ''- B'', ''## [1.2.0]'', ''- C'', [],
                ''## [1.1.0]'', ''- D'']"

definition quietConflictEnv :: conflict_env where
  "quietConflictEnv =
     \<lparr> fetchResponse = Fails, rebaseResponse = Fails, mergeBaseResponse = Fails, forcePushResponse = Fails \<rparr>"

definition recheckFailsEnv :: merge_env where
  "recheckFailsEnv =
     \<lparr> mergeableResponse = Fails, conflictEnv = quietConflictEnv, updatedResponse = Fails,
        mergeResponse = Fails, stateResponse = Fails \<rparr>"

definition mergedAnywayEnv :: merge_env where
  \<open>mergedAnywayEnv =
     \<lparr> mergeableResponse = Fails, conflictEnv = quietConflictEnv, updatedResponse = Fails,
        mergeResponse = Fails, stateResponse = Outputs ''{"state":"MERGED"}'' \<rparr>\<close>

definition stillOpenEnv :: merge_env where
  \<open>stillOpenEnv =
     \<lparr> mergeableResponse = Fails, conflictEnv = quietConflictEnv, updatedResponse = Fails,
        mergeResponse = Fails, stateResponse = Outputs ''{"state":"OPEN"}'' \<rparr>\<close>

definition mergesEnv :: merge_env where
  \<open>mergesEnv =
     \<lparr> mergeableResponse = Outputs ''{"mergeStateStatus":"CLEAN","mergeable":"MERGEABLE"}'',
        conflictEnv = quietConflictEnv, updatedResponse = Fails,
        mergeResponse = Outputs [], stateResponse = Fails \<rparr>\<close>

definition tagExistsEnv :: release_env where
  "tagExistsEnv =
     \<lparr> checkoutResponse = Outputs [], pullResponse = Outputs [],
        manifestAtRelease = Some ''1.2.0'', changelog = None,
        tagListResponse = Outputs ''v1.2.0'',
        tmpDirExists = True, mkdirSucceeds = True, writeSucceeds = True,
        releaseFromFileResponse = Outputs [], unlinkSucceeds = True,
        releaseFromNotesResponse = Outputs [] \<rparr>"

definition firstReleaseEnv :: release_env where
  "firstReleaseEnv =
     \<lparr> checkoutResponse = Outputs [], pullResponse = Outputs [],
        manifestAtRelease = Some ''1.2.0'', changelog = Some sampleChangelog,
        tagListResponse = Outputs [],
        tmpDirExists = False, mkdirSucceeds = True, writeSucceeds = True,
        releaseFromFileResponse = Outputs [], unlinkSucceeds = True,
        releaseFromNotesResponse = Outputs [] \<rparr>"

definition fileReleaseFailsEnv :: release_env where
  "fileReleaseFailsEnv =
     \<lparr> checkoutResponse = Outputs [], pullResponse = Outputs [],
        manifestAtRelease = Some ''1.2.0'', changelog = None,
        tagListResponse = Outputs [],
        tmpDirExists = True, mkdirSucceeds = True, writeSucceeds = True,
        releaseFromFileResponse = Fails, unlinkSucceeds = True,
        releaseFromNotesResponse = Outputs [] \<rparr>"

definition bothReleasesFailEnv :: release_env where
  "bothReleasesFailEnv =
     \<lparr> checkoutResponse = Outputs [], pullResponse = Outputs [],
        manifestAtRelease = Some ''1.2.0'', changelog = None,
        tagListResponse = Outputs [],
        tmpDirExists = True, mkdirSucceeds = True, writeSucceeds = True,
        releaseFromFileResponse = Fails, unlinkSucceeds = True,
        releaseFromNotesResponse = Fails \<rparr>"

definition onMainEnv :: main_env where
  "onMainEnv =
     \<lparr> ghVersionResponse = Outputs ''gh version 2.40.0'',
        authResponse = Outputs ''Logged in to github.com'',
        statusResponse = Outputs [],
        branchResponse = Outputs ''main'',
        manifest = Some ''1.2.0'',
        logResponse = Outputs ''Add runes'',
        pushResponse = Outputs [],
        prEnv = existingPrEnv,
        waitEnv = \<lparr> versionResponse = Outputs ''gh version 2.40.0'', cycleResponses = (\<lambda>_. unreachableCycle) \<rparr>,
        mergeEnv = recheckFailsEnv,
        releaseEnv = tagExistsEnv \<rparr>"

definition mergeFailsEnv :: main_env where
  "mergeFailsEnv =
     \<lparr> ghVersionResponse = Outputs ''gh version 2.40.0'',
        authResponse = Outputs ''Logged in to github.com'',
        statusResponse = Outputs [],
        branchResponse = Outputs ''feature/x'',
        manifest = Some ''1.2.0'',
        logResponse = Outputs ''Add runes'',
        pushResponse = Outputs [],
        prEnv = existingPrEnv,
        waitEnv = \<lparr> versionResponse = Outputs ''gh version 2.40.0'',
                     cycleResponses = (\<lambda>_. noChecksMergeableCycle) \<rparr>,
        mergeEnv = stillOpenEnv,
        releaseEnv = tagExistsEnv \<rparr>"

definition releaseRunEnv :: main_env where
  "releaseRunEnv =
     \<lparr> ghVersionResponse = Outputs ''gh version 2.40.0'',
        authResponse = Outputs ''Logged in to github.com'',
        statusResponse = Outputs [],
        branchResponse = Outputs ''feature/x'',
        manifest = Some ''1.2.0'',
        logResponse = Outputs ''Add runes'',
        pushResponse = Outputs [],
        prEnv = newPrEnv,
        waitEnv = \<lparr> versionResponse = Outputs ''gh version 2.40.0'',
                     cycleResponses = (\<lambda>_. passedCycle) \<rparr>,
        mergeEnv = mergesEnv,
        releaseEnv = firstReleaseEnv \<rparr>"

definition rerunEnv :: main_env where
  "rerunEnv = releaseRunEnv \<lparr> releaseEnv := tagExistsEnv \<rparr>"

section \<open>Running pieces of the script\<close>

lemma execCommand_silent: "execCommand c True True r = ([Exec c], Ret (silentOutput r))"
  by (cases r) (simp_all add: execCommand_def silentOutput_def)

lemma execCommand_Outputs:
  "execCommand c silent allowFailure (Outputs out)
     = ([Exec c], Ret (if silent then Str (trim out) else Undefined))"
  by (simp add: execCommand_def)

lemma execCommand_Fails:
  "execCommand c silent allowFailure Fails = ([Exec c], if allowFailure then Ret Null else Throw)"
  by (simp add: execCommand_def)

lemma andThen_Ret [simp]: "andThen (t, Ret a) f = (t @ fst (f a), snd (f a))"
  by (simp add: andThen_def split: prod.splits)

lemma andThen_Exit [simp]: "andThen (t, Exit e) f = (t, Exit e)"
  by (simp add: andThen_def)

lemma andThen_Throw [simp]: "andThen (t, Throw) f = (t, Throw)"
  by (simp add: andThen_def)


section \<open>The outcome of one polling pass\<close>










section \<open>The polling loop\<close>

lemma slept_append [simp]: "slept (xs @ ys) = slept xs + slept ys"
  by (induction xs rule: slept.induct) auto

lemma evaluateChecks_slept:
  "slept (fst (evaluateChecks JSON p prData s)) =
     (if snd (evaluateChecks JSON p prData s) = Ret Continue then p else 0)"
  by (simp add: evaluateChecks_def Let_def ret_def throw_def sleepAndContinue_def sleep_def
           split: decoded_checks.splits)

text \<open>A pass that goes back to the loop head has slept for the interval, once.\<close>

lemma pollCycle_slept:
  "slept (fst (pollCycle JSON p n env)) =
     (if snd (pollCycle JSON p n env) = Ret Continue then p else 0)"
  by (simp add: pollCycle_def execCommand_silent ret_def sleepAndContinue_def sleep_def
           evaluateChecks_slept split: option.splits)

text \<open>
  When every pass goes back to the loop head, the loop returns false, and the clock then
  reads less than the budget, the interval and the command time of the last pass together.
\<close>

lemma pollLoop_timeout:
  assumes p: "0 < p"
    and cont: "\<forall>k. snd (pollCycle JSON p n (cycles k)) = Ret Continue"
    and time: "\<forall>k. commandTime (cycles k) \<le> d"
  shows "\<exists>t e. pollLoop JSON T p n cycles k elapsed eff = Some ((t, Ret False), e)
            \<and> (if elapsed < T then T \<le> e \<and> e < T + p + d else e = elapsed)"
proof (induction "T - elapsed" arbitrary: elapsed k eff rule: less_induct)
  case less
  show ?case
  proof (cases "elapsed < T")
    case False
    then show ?thesis by (subst pollLoop.simps) simp
  next
    case True
    define c where "c = commandTime (cycles (k + 1))"
    have cd: "c \<le> d" using time by (simp add: c_def)
    obtain t r where pass: "pollCycle JSON p n (cycles (k + 1)) = (t, r)"
      by (cases "pollCycle JSON p n (cycles (k + 1))")
    with cont have r: "r = Ret Continue"
      by (metis snd_conv)
    from pollCycle_slept [of JSON p n "cycles (k + 1)"] pass r have s: "slept t = p" by simp
    have "T - (elapsed + c + p) < T - elapsed" using True p by arith
    from less [OF this, of "k + 1" "eff @ t"]
    obtain t' e where rec: "pollLoop JSON T p n cycles (k + 1) (elapsed + c + p) (eff @ t) = Some ((t', Ret False), e)"
      and b: "if elapsed + c + p < T then T \<le> e \<and> e < T + p + d else e = elapsed + c + p"
      by blast
    have "pollLoop JSON T p n cycles k elapsed eff = Some ((t', Ret False), e)"
      using True pass r s rec by (subst pollLoop.simps) (simp add: c_def)
    moreover have "T \<le> e \<and> e < T + p + d"
      using b True cd by (auto split: if_splits)
    ultimately show ?thesis using True by simp
  qed
qed

text \<open>
  The same loop when the commands of every pass take the same time: after the first
  \<open>m\<close> passes for which the budget is not yet used up, the clock reads \<open>m\<close> times the
  command time and the interval.
\<close>

lemma pollLoop_steady:
  assumes cont: "\<forall>k. snd (pollCycle JSON p n (cycles k)) = Ret Continue"
    and time: "\<forall>k. commandTime (cycles k) = c"
  shows "(\<forall>i<m. elapsed + i * (c + p) < T) \<Longrightarrow> T \<le> elapsed + m * (c + p)
           \<Longrightarrow> \<exists>t. pollLoop JSON T p n cycles k elapsed eff = Some ((t, Ret False), elapsed + m * (c + p))"
proof (induction m arbitrary: elapsed k eff)
  case 0
  then show ?case by (subst pollLoop.simps) simp
next
  case (Suc m)
  from Suc.prems(1) have now: "elapsed < T" by force
  obtain t r where pass: "pollCycle JSON p n (cycles (k + 1)) = (t, r)"
    by (cases "pollCycle JSON p n (cycles (k + 1))")
  with cont have r: "r = Ret Continue"
    by (metis snd_conv)
  from pollCycle_slept [of JSON p n "cycles (k + 1)"] pass r have s: "slept t = p" by simp
  have later: "\<forall>i<m. (elapsed + c + p) + i * (c + p) < T"
  proof (intro allI impI)
    fix i assume "i < m"
    then have "Suc i < Suc m" by simp
    with Suc.prems(1) have "elapsed + Suc i * (c + p) < T" by blast
    then show "(elapsed + c + p) + i * (c + p) < T" by (simp add: add.assoc)
  qed
  have "T \<le> (elapsed + c + p) + m * (c + p)" using Suc.prems(2) by simp
  from Suc.IH [OF later this, of "k + 1" "eff @ t"]
  obtain t' where "pollLoop JSON T p n cycles (k + 1) (elapsed + c + p) (eff @ t)
                     = Some ((t', Ret False), (elapsed + c + p) + m * (c + p))"
    by blast
  then have "pollLoop JSON T p n cycles k elapsed eff = Some ((t', Ret False), elapsed + Suc m * (c + p))"
    using now pass r s time by (subst pollLoop.simps) (simp add: add.assoc)
  then show ?case by blast
qed

text \<open>
  C4, as the script has it. With a positive poll interval, when every pass ends back at the
  loop head (no pass returns, none throws) and the commands of a pass never take more than
  \<open>d\<close> milliseconds, the loop of \<^verbatim>\<open>waitForChecks\<close> returns, it returns false, and the
  clock then reads at least the wait budget and at most the budget, one interval and \<open>d\<close>
  together: the budget is tested at the loop head only, so the pass that starts just before
  the budget is used up still runs its commands and its sleep.
\<close>

theorem C4_timeout_bound:
  assumes "0 < interval"
    and "\<forall>k. snd (pollCycle JSON interval prNumber (cycles k)) = Ret Continue"
    and "\<forall>k. commandTime (cycles k) \<le> d"
  shows "\<exists>t elapsed. pollLoop JSON maxWait interval prNumber cycles 0 0 effects = Some ((t, Ret False), elapsed)
            \<and> maxWait \<le> elapsed \<and> elapsed \<le> maxWait + interval + d"
proof -
  from pollLoop_timeout [OF assms, of maxWait 0 0 effects]
  obtain t e where run: "pollLoop JSON maxWait interval prNumber cycles 0 0 effects = Some ((t, Ret False), e)"
    and b: "if 0 < maxWait then maxWait \<le> e \<and> e < maxWait + interval + d else e = 0"
    by blast
  from b have "maxWait \<le> e \<and> e \<le> maxWait + interval + d"
    by (auto split: if_splits)
  with run show ?thesis by blast
qed

lemma busyCycle_pass:
  "pollCycle JSON p n busyCycle = ([Exec (GhPrViewStatus n), Sleep p], Ret Continue)"
  by (simp add: busyCycle_def pollCycle_def execCommand_Fails sleepAndContinue_def sleep_def ret_def)

theorem C4_timeout_bound_witness:
  "0 < CHECK_INTERVAL
   \<and> (\<forall>k. snd (pollCycle sampleJSON CHECK_INTERVAL ''7'' (busyCycles k)) = Ret Continue)
   \<and> (\<forall>k. commandTime (busyCycles k) \<le> 9000)
   \<and> (\<exists>t elapsed.
        pollLoop sampleJSON MAX_WAIT_TIME CHECK_INTERVAL ''7'' busyCycles 0 0 [] = Some ((t, Ret False), elapsed)
        \<and> MAX_WAIT_TIME \<le> elapsed \<and> elapsed \<le> MAX_WAIT_TIME + CHECK_INTERVAL + 9000)"
  using C4_timeout_bound [of CHECK_INTERVAL sampleJSON "''7''" busyCycles 9000 MAX_WAIT_TIME "[]"]
  by (simp add: CHECK_INTERVAL_def busyCycles_def busyCycle_pass) (simp add: busyCycle_def)

text \<open>
  The claim C4 as it is written fails on the script: with the constants of the script and
  passes whose commands take nine seconds, no pass ever returns, the loop is entered for the
  47th time after 1794000 milliseconds, still within the budget of 1800000, and
  \<^verbatim>\<open>waitForChecks\<close> returns false after 1833000 milliseconds, later than the budget and
  one interval, 1830000.
\<close>

theorem C4_counterexample:
  "snd (pollCycle sampleJSON CHECK_INTERVAL ''7'' busyCycle) = Ret Continue
   \<and> map_option (snd \<circ> fst) (pollLoop sampleJSON MAX_WAIT_TIME CHECK_INTERVAL ''7'' busyCycles 0 0 [])
       = Some (Ret False)
   \<and> map_option snd (pollLoop sampleJSON MAX_WAIT_TIME CHECK_INTERVAL ''7'' busyCycles 0 0 [])
       = Some 1833000
   \<and> \<not> (1833000 \<le> MAX_WAIT_TIME + CHECK_INTERVAL)"
proof -
  have cont: "\<forall>k. snd (pollCycle sampleJSON CHECK_INTERVAL ''7'' (busyCycles k)) = Ret Continue"
    by (simp add: busyCycles_def busyCycle_pass)
  have time: "\<forall>k. commandTime (busyCycles k) = 9000"
    by (simp add: busyCycles_def busyCycle_def)
  have before: "\<forall>i<47. 0 + i * (9000 + CHECK_INTERVAL) < MAX_WAIT_TIME"
    by (auto simp: CHECK_INTERVAL_def MAX_WAIT_TIME_def)
  have after: "MAX_WAIT_TIME \<le> 0 + 47 * (9000 + CHECK_INTERVAL)"
    by (simp add: CHECK_INTERVAL_def MAX_WAIT_TIME_def)
  from pollLoop_steady [OF cont time before after, of 0 "[]"]
  obtain t where "pollLoop sampleJSON MAX_WAIT_TIME CHECK_INTERVAL ''7'' busyCycles 0 0 []
                    = Some ((t, Ret False), 1833000)"
    by (auto simp: CHECK_INTERVAL_def)
  then show ?thesis
    by (simp add: busyCycle_pass CHECK_INTERVAL_def MAX_WAIT_TIME_def)
qed

text \<open>
  A run with a budget of 100, an interval of 30 and commands that take 19 per pass, step by
  step: the third pass starts at 98 and the loop returns at 147.
\<close>

lemma pollLoop_example:
  "pollLoop sampleJSON 100 30 ''7'' (\<lambda>_. briefCycle) 0 0 []
     = Some (([Exec (GhPrViewStatus ''7''), Sleep 30, Exec (GhPrViewStatus ''7''), Sleep 30,
               Exec (GhPrViewStatus ''7''), Sleep 30], Ret False), 147)"
  by code_simp

lemma execCommandSafely_allowed:
  "\<exists>v. execCommandSafely c True True r = ([Exec c], Ret v)"
  by (cases r) (simp_all add: execCommandSafely_def execCommand_def ret_def)

text \<open>\<^verbatim>\<open>waitForChecks\<close> itself, with the constants of the script: it returns.\<close>

lemma waitForChecks_timeout:
  assumes "\<forall>k. snd (pollCycle JSON CHECK_INTERVAL prNumber (cycleResponses env k)) = Ret Continue"
    and "\<forall>k. commandTime (cycleResponses env k) \<le> d"
  shows "\<exists>t elapsed. waitForChecks JSON prNumber env = Some ((t, Ret False), elapsed)
            \<and> elapsed < MAX_WAIT_TIME + CHECK_INTERVAL + d"
proof -
  have p: "0 < CHECK_INTERVAL" by (simp add: CHECK_INTERVAL_def)
  have T: "0 < MAX_WAIT_TIME" by (simp add: MAX_WAIT_TIME_def)
  obtain t0 v where v: "execCommandSafely GhVersion True True (versionResponse env) = (t0, Ret v)"
    using execCommandSafely_allowed by blast
  from pollLoop_timeout [OF p assms, of MAX_WAIT_TIME 0 0 t0] T v
  show ?thesis by (auto simp: waitForChecks_def)
qed

text \<open>
  A pass in which the output of the status API decodes to a value that is not a list: the
  call of \<^verbatim>\<open>checks.filter\<close> throws, and the error leaves \<^verbatim>\<open>waitForChecks\<close>.
\<close>

lemma objectCycle_pass:
  "pollCycle sampleJSON p ''7'' objectCycle
     = ([Exec (GhPrViewStatus ''7''), Exec (GhPrChecks ''7''), Exec (GhApiStatusChecks ''7'')], Throw)"
  by (simp add: objectCycle_def pollCycle_def evaluateChecks_def execCommand_Outputs execCommand_Fails
        sampleJSON_def throw_def trim_def is_space_def)

lemma objectCycle_run:
  "pollLoop sampleJSON MAX_WAIT_TIME CHECK_INTERVAL ''7'' (\<lambda>_. objectCycle) 0 0 []
     = Some (([Exec (GhPrViewStatus ''7''), Exec (GhPrChecks ''7''), Exec (GhApiStatusChecks ''7'')], Throw), 900)"
  by (subst pollLoop.simps) (simp add: objectCycle_pass MAX_WAIT_TIME_def, simp add: objectCycle_def)

section \<open>Finding or creating the pull request\<close>

lemma findExistingPR_shape:
  "\<exists>found. findExistingPR JSON b r = ([Exec (GhPrList b)], Ret found)"
  by (simp add: findExistingPR_def execCommand_silent ret_def split: option.splits list.splits)

lemma findExistingPR_first:
  assumes "truthy (silentOutput r)"
    and "parsePullRequests JSON (toStr (silentOutput r)) = Some (pr # prs)"
  shows "findExistingPR JSON b r = ([Exec (GhPrList b)], Ret (Num (number pr)))"
  using assms by (simp add: findExistingPR_def execCommand_silent ret_def)

lemma extractPRNumber_shape:
  "\<exists>t found. extractPRNumber JSON s b r = (t, Ret found)"
  by (simp add: extractPRNumber_def Let_def execCommand_silent ret_def split: option.splits list.splits)

text \<open>
  C5. When the first lookup lists at least one pull request for the branch,
  \<^verbatim>\<open>getOrCreatePR\<close> returns the number of the first one listed and issues the lookup
  only: no create request. A second call under the same listing does the same and returns
  the same number. The number is taken to be non-zero, as the hosting service numbers pull
  requests from 1 (the script tests the number with \<^verbatim>\<open>if (prNumber)\<close>).
\<close>

theorem C5_existing_pr_reused:
  assumes "truthy (silentOutput (firstLookup env))"
    and "parsePullRequests JSON (toStr (silentOutput (firstLookup env))) = Some (pr # prs)"
    and "number pr \<noteq> 0"
    and "firstLookup env' = firstLookup env"
  shows "getOrCreatePR JSON branch version commitMessage env
           = ([Exec (GhPrList branch)], Ret (Num (number pr)))
       \<and> getOrCreatePR JSON branch version' commitMessage' env'
           = ([Exec (GhPrList branch)], Ret (Num (number pr)))"
  using assms by (simp add: getOrCreatePR_def findExistingPR_first ret_def)

theorem C5_existing_pr_reused_witness:
  "truthy (silentOutput (firstLookup existingPrEnv))
   \<and> firstLookup laterPrEnv = firstLookup existingPrEnv
   \<and> getOrCreatePR sampleJSON ''feature/x'' ''1.2.0'' ''Add runes'' existingPrEnv
       = ([Exec (GhPrList ''feature/x'')], Ret (Num 7))
   \<and> getOrCreatePR sampleJSON ''feature/x'' ''1.2.0'' ''Add runes'' laterPrEnv
       = ([Exec (GhPrList ''feature/x'')], Ret (Num 7))"
  using C5_existing_pr_reused [of existingPrEnv sampleJSON
      "\<lparr> number = 7, title = [], url = [] \<rparr>"
      "[]" laterPrEnv "''feature/x''" "''1.2.0''" "''Add runes''" "''1.2.0''" "''Add runes''"]
  by (simp add: existingPrEnv_def laterPrEnv_def sampleJSON_def silentOutput_def trim_def is_space_def)

text \<open>
  C6. When the first lookup finds no pull request and the create request fails,
  \<^verbatim>\<open>getOrCreatePR\<close> looks again before it gives up: it has issued the lookup, the create
  request and the lookup again, and it exits only if that last lookup finds nothing.
  Whenever \<^verbatim>\<open>getOrCreatePR\<close> exits, the first lookup found nothing, the create request
  was issued and gave no number (it failed, or no number could be taken from its output),
  and the lookup issued last found nothing either.
\<close>

theorem C6_exit_after_create_and_requery:
  "(\<not> returnsTruthy (findExistingPR JSON b (firstLookup env)) \<and> \<not> truthy (silentOutput (createRequest env))
      \<longrightarrow> getOrCreatePR JSON b v m env
            = ([Exec (GhPrList b),
                Exec (GhPrCreate (escapeShellString (prTitle v)) (escapeShellString (prBody v m)) b),
                Exec (GhPrList b)],
               if returnsTruthy (findExistingPR JSON b (secondLookup env))
               then snd (findExistingPR JSON b (secondLookup env))
               else Exit CreateFailedNoExistingPR))
   \<and> (snd (getOrCreatePR JSON b v m env) = Exit f
      \<longrightarrow> \<not> returnsTruthy (findExistingPR JSON b (firstLookup env))
          \<and> (\<not> truthy (silentOutput (createRequest env))
               \<or> \<not> returnsTruthy (extractPRNumber JSON (toStr (silentOutput (createRequest env))) b (branchLookup env)))
          \<and> \<not> returnsTruthy (findExistingPR JSON b (secondLookup env))
          \<and> (\<exists>between. fst (getOrCreatePR JSON b v m env)
                = Exec (GhPrList b)
                  # Exec (GhPrCreate (escapeShellString (prTitle v)) (escapeShellString (prBody v m)) b)
                  # between @ [Exec (GhPrList b)]))"
proof -
  obtain x1 where f1: "findExistingPR JSON b (firstLookup env) = ([Exec (GhPrList b)], Ret x1)"
    using findExistingPR_shape by blast
  obtain x2 where f2: "findExistingPR JSON b (secondLookup env) = ([Exec (GhPrList b)], Ret x2)"
    using findExistingPR_shape by blast
  obtain t3 x3 where f3:
    "extractPRNumber JSON (toStr (silentOutput (createRequest env))) b (branchLookup env) = (t3, Ret x3)"
    using extractPRNumber_shape by blast
  show ?thesis
    by (simp add: getOrCreatePR_def f1 f2 f3 execCommand_silent returnsTruthy_def ret_def exit1_def)
qed

theorem C6_exit_after_create_and_requery_witness:
  "\<not> returnsTruthy (findExistingPR sampleJSON ''feature/x'' (firstLookup noPrEnv))
   \<and> \<not> truthy (silentOutput (createRequest noPrEnv))
   \<and> \<not> returnsTruthy (findExistingPR sampleJSON ''feature/x'' (secondLookup noPrEnv))
   \<and> getOrCreatePR sampleJSON ''feature/x'' ''1.2.0'' ''Add runes'' noPrEnv
       = ([Exec (GhPrList ''feature/x''),
           Exec (GhPrCreate (escapeShellString (prTitle ''1.2.0''))
                   (escapeShellString (prBody ''1.2.0'' ''Add runes'')) ''feature/x''),
           Exec (GhPrList ''feature/x'')],
          Exit CreateFailedNoExistingPR)"
  using C6_exit_after_create_and_requery [of sampleJSON "''feature/x''" noPrEnv "''1.2.0''" "''Add runes''" CreateFailedNoExistingPR]
  by (simp add: noPrEnv_def sampleJSON_def silentOutput_def trim_def is_space_def returnsTruthy_def
        findExistingPR_def execCommand_silent ret_def)

section \<open>Release notes\<close>

lemma collectNotes_before:
  "list_all (\<lambda>l. \<not> startsSection v l) before
     \<Longrightarrow> collectNotes v False acc (before @ rest) = collectNotes v False acc rest"
  by (induction before) (simp_all add: startsSection_def)

lemma collectNotes_section:
  "list_all (\<lambda>l. \<not> endsSection v l) sect
     \<Longrightarrow> collectNotes v True acc (sect @ rest)
         = collectNotes v True (acc @ filter (\<lambda>l. \<not> startsSection v l \<and> trim l \<noteq> []) sect) rest"
  by (induction sect arbitrary: acc) (auto simp: startsSection_def endsSection_def)

lemma collectNotes_end:
  "rest = [] \<or> endsSection v (hd rest) \<Longrightarrow> collectNotes v True acc rest = acc"
  by (cases rest) (auto simp: startsSection_def endsSection_def)

lemma collectNotes_shape:
  assumes "list_all (\<lambda>l. \<not> startsSection v l) before"
    and "startsSection v heading"
    and "list_all (\<lambda>l. \<not> endsSection v l) sect"
    and "rest = [] \<or> endsSection v (hd rest)"
  shows "collectNotes v False [] (before @ heading # sect @ rest)
           = filter (\<lambda>l. \<not> startsSection v l \<and> trim l \<noteq> []) sect"
proof -
  have "collectNotes v False [] (before @ heading # sect @ rest)
          = collectNotes v False [] (heading # sect @ rest)"
    using assms(1) by (rule collectNotes_before)
  also have "\<dots> = collectNotes v True [] (sect @ rest)"
    using assms(2) by (simp add: startsSection_def)
  also have "\<dots> = collectNotes v True ([] @ filter (\<lambda>l. \<not> startsSection v l \<and> trim l \<noteq> []) sect) rest"
    using assms(3) by (rule collectNotes_section)
  also have "\<dots> = filter (\<lambda>l. \<not> startsSection v l \<and> trim l \<noteq> []) sect"
    using assms(4) by (simp add: collectNotes_end)
  finally show ?thesis .
qed

text \<open>
  C7, as the script has it. Take a changelog whose lines are: lines that do not start the
  section, a line that contains \<^verbatim>\<open>[Unreleased]\<close> or the version in brackets, lines none
  of which ends the section, and then nothing more or a line that ends the section (it starts
  with \<^verbatim>\<open>## [\<close>, does not contain the version and is not itself a starting line).
  \<^verbatim>\<open>generateReleaseNotes\<close> returns the title \<^verbatim>\<open>Release v<version>\<close>, an empty line, and
  the lines of the section that are not blank and are not starting lines themselves, joined
  by newlines; when there is no such line, it returns the title, an empty line and a pointer
  to the changelog.
\<close>

theorem C7_release_notes:
  assumes "split_on LF changelogText = before @ heading # sect @ rest"
    and "list_all (\<lambda>l. \<not> startsSection version l) before"
    and "startsSection version heading"
    and "list_all (\<lambda>l. \<not> endsSection version l) sect"
    and "rest = [] \<or> endsSection version (hd rest)"
  shows "generateReleaseNotes version (Some changelogText) =
     (if filter (\<lambda>l. \<not> startsSection version l \<and> trim l \<noteq> []) sect = []
      then ''Release v'' @ version @ [LF, LF] @ ''See CHANGELOG.md for details.''
      else ''Release v'' @ version @ [LF, LF]
             @ join [LF] (filter (\<lambda>l. \<not> startsSection version l \<and> trim l \<noteq> []) sect))"
  using collectNotes_shape [OF assms(2-5)] assms(1)
  by (simp add: generateReleaseNotes_def Let_def)

lemma sampleChangelog_lines:
  "split_on LF sampleChangelog
     = [''# Changelog''] @ ''## [Unreleased]'' # [''- A'', ''- B'', ''## [1.2.0]'', ''- C'', []] @ [''## [1.1.0]'', ''- D'']"
  by (simp add: sampleChangelog_def LF_def)

theorem C7_release_notes_witness:
  "split_on LF sampleChangelog
     = [''# Changelog''] @ ''## [Unreleased]'' # [''- A'', ''- B'', ''## [1.2.0]'', ''- C'', []] @ [''## [1.1.0]'', ''- D'']
   \<and> list_all (\<lambda>l. \<not> startsSection ''1.2.0'' l) [''# Changelog'']
   \<and> startsSection ''1.2.0'' ''## [Unreleased]''
   \<and> list_all (\<lambda>l. \<not> endsSection ''1.2.0'' l) [''- A'', ''- B'', ''## [1.2.0]'', ''- C'', []]
   \<and> endsSection ''1.2.0'' (hd [''## [1.1.0]'', ''- D''])
   \<and> generateReleaseNotes ''1.2.0'' (Some sampleChangelog)
       = ''Release v1.2.0'' @ [LF, LF] @ join [LF] [''- A'', ''- B'', ''- C'']"
  using C7_release_notes [of sampleChangelog "[''# Changelog'']" "''## [Unreleased]''"
      "[''- A'', ''- B'', ''## [1.2.0]'', ''- C'', []]" "[''## [1.1.0]'', ''- D'']" "''1.2.0''"]
    sampleChangelog_lines
  by (simp add: startsSection_def endsSection_def trim_def is_space_def)

text \<open>
  The claim C7 as it is written fails on the script: what \<^verbatim>\<open>generateReleaseNotes\<close> returns
  is not the collected lines and nothing else, since a title and an empty line come first.
\<close>

theorem C7_counterexample:
  "collectNotes ''1.2.0'' False [] (split_on LF sampleChangelog) = [''- A'', ''- B'', ''- C'']
   \<and> generateReleaseNotes ''1.2.0'' (Some sampleChangelog) \<noteq> join [LF] [''- A'', ''- B'', ''- C'']
   \<and> generateReleaseNotes ''1.2.0'' (Some sampleChangelog)
       = ''Release v1.2.0'' @ [LF, LF] @ join [LF] [''- A'', ''- B'', ''- C'']"
  by (simp add: generateReleaseNotes_def Let_def sampleChangelog_def LF_def trim_def is_space_def)

section \<open>The merge\<close>

lemma mergeAttempt_failed:
  "mergeResponse env = Fails
     \<Longrightarrow> mergeAttempt JSON n env
         = ([Exec (GhPrMerge n), Exec (GhPrViewState n)], Ret (reportsMerged JSON (stateResponse env)))"
  by (simp add: mergeAttempt_def tryCatch_def execCommand_Fails execCommand_silent reportsMerged_def
        ret_def split: option.splits)

lemma mergeAttempt_succeeded:
  "mergeResponse env = Outputs out \<Longrightarrow> mergeAttempt JSON n env = ([Exec (GhPrMerge n)], Ret True)"
  by (simp add: mergeAttempt_def tryCatch_def execCommand_Outputs ret_def)

text \<open>Where a \<^verbatim>\<open>process.exit(1)\<close> can come from.\<close>

lemma andThen_ExitE:
  assumes "snd (andThen m k) = Exit f"
  obtains "snd m = Exit f" | t a where "m = (t, Ret a)" "snd (k a) = Exit f"
  using assms by (cases m; cases "snd m") (auto simp: andThen_def split: prod.splits)

lemma tryCatch_ExitE:
  assumes "snd (tryCatch m h) = Exit f"
  obtains "snd m = Exit f" | "snd m = Throw" "snd h = Exit f"
  using assms by (cases m; cases "snd m") (auto simp: tryCatch_def split: prod.splits)

lemma execCommand_no_exit [simp]: "snd (execCommand c s a r) \<noteq> Exit f"
  by (cases r) (simp_all add: execCommand_def)

lemma execCommandSafely_no_exit [simp]: "snd (execCommandSafely c s a r) \<noteq> Exit f"
  by (cases r) (auto simp: execCommandSafely_def execCommand_def ret_def throw_def split: if_splits)

lemma ret_no_exit [simp]: "snd (ret a) \<noteq> Exit f"
  by (simp add: ret_def)

lemma throw_no_exit [simp]: "snd throw \<noteq> Exit f"
  by (simp add: throw_def)

lemma exit1_eq [simp]: "(snd (exit1 e) = Exit f) = (e = f)"
  by (simp add: exit1_def)

lemma sleep_no_exit [simp]: "snd (sleep ms) \<noteq> Exit f"
  by (simp add: sleep_def)

lemma fsCall_no_exit [simp]: "snd (fsCall e ok) \<noteq> Exit f"
  by (simp add: fsCall_def)

lemma findExistingPR_no_exit [simp]: "snd (findExistingPR JSON b r) \<noteq> Exit f"
  using findExistingPR_shape [of JSON b r] by auto

lemma extractPRNumber_no_exit [simp]: "snd (extractPRNumber JSON s b r) \<noteq> Exit f"
  using extractPRNumber_shape [of JSON s b r] by auto

lemma getOrCreatePR_exit:
  "snd (getOrCreatePR JSON b v m env) = Exit f \<Longrightarrow> f = CreateFailedNoExistingPR \<or> f = NoPRNumber"
  unfolding getOrCreatePR_def
  by (auto elim!: andThen_ExitE split: if_splits)

lemma getOrCreatePR_not_merge [simp]:
  "snd (getOrCreatePR JSON b v m env) \<noteq> Exit MergeFailed"
  using getOrCreatePR_exit [of JSON b v m env MergeFailed] by auto

lemma mainUntilPR_exit:
  "snd (mainUntilPR JSON env) = Exit f \<Longrightarrow> f \<noteq> MergeFailed"
  unfolding mainUntilPR_def hasUncommittedChanges_def getCurrentBranch_def
    getLatestCommitMessage_def getPackageVersion_def
  by (auto elim!: andThen_ExitE split: if_splits option.splits)

lemma attemptConflictResolution_no_exit [simp]:
  "snd (attemptConflictResolution b env) \<noteq> Exit f"
  unfolding attemptConflictResolution_def
  by (auto elim!: andThen_ExitE tryCatch_ExitE split: if_splits)

lemma checkMergeable_exit:
  "snd (checkMergeable JSON b n env) = Exit f \<Longrightarrow> f = ConflictsRemain \<or> f = ConflictResolutionFailed"
  unfolding checkMergeable_def
  by (auto elim!: andThen_ExitE split: if_splits option.splits)

lemma checkMergeable_not_merge [simp]:
  "snd (checkMergeable JSON b n env) \<noteq> Exit MergeFailed"
  using checkMergeable_exit [of JSON b n env MergeFailed] by auto

lemma createRelease_no_exit [simp]: "snd (createRelease v env) \<noteq> Exit f"
  unfolding createRelease_def getPackageVersion_def Let_def
  by (auto elim!: andThen_ExitE tryCatch_ExitE split: if_splits option.splits)

lemma evaluateChecks_no_exit [simp]: "snd (evaluateChecks JSON p d c) \<noteq> Exit f"
  by (simp add: evaluateChecks_def Let_def ret_def throw_def sleepAndContinue_def sleep_def
        split: decoded_checks.splits)

lemma pollCycle_no_exit [simp]: "snd (pollCycle JSON p n env) \<noteq> Exit f"
  by (simp add: pollCycle_def execCommand_silent ret_def sleepAndContinue_def sleep_def
        split: option.splits)

lemma pollLoop_no_exit:
  assumes "pollLoop JSON T p n cycles k elapsed eff = Some y"
  shows "snd (fst y) \<noteq> Exit f"
proof (rule pollLoop.raw_induct
    [where P = "\<lambda>JSON T p n cycles k elapsed eff y. snd (fst y) \<noteq> Exit f", OF _ assms],
    goal_cases)
  case (1 loop JSON maxWait interval prNumber cycles retryCount elapsed effects y)
  obtain t r where pass: "pollCycle JSON interval prNumber (cycles (retryCount + 1)) = (t, r)"
    by (cases "pollCycle JSON interval prNumber (cycles (retryCount + 1))")
  have r: "r \<noteq> Exit e" for e
    by (metis pollCycle_no_exit pass snd_conv)
  show ?case
  proof (cases "elapsed < maxWait")
    case False
    with 1(2) show ?thesis by auto
  next
    case True
    show ?thesis
    proof (cases r)
      case (Ret s)
      with 1 True pass show ?thesis by (cases s) auto
    next
      case (Exit e)
      with r [of e] show ?thesis by simp
    next
      case Throw
      with 1(2) True pass show ?thesis by auto
    qed
  qed
qed

lemma waitForChecks_no_exit:
  "waitForChecks JSON n env = Some (checks, elapsed) \<Longrightarrow> snd checks \<noteq> Exit f"
proof -
  assume w: "waitForChecks JSON n env = Some (checks, elapsed)"
  obtain v where "execCommandSafely GhVersion True True (versionResponse env) = ([Exec GhVersion], Ret v)"
    using execCommandSafely_allowed by blast
  with w have "pollLoop JSON MAX_WAIT_TIME CHECK_INTERVAL n (cycleResponses env) 0 0 [Exec GhVersion]
                 = Some (checks, elapsed)"
    by (simp add: waitForChecks_def)
  from pollLoop_no_exit [OF this] show ?thesis by simp
qed

text \<open>The run ends with the merge failure only through the exit of the merge step.\<close>

lemma main_merge_failed:
  assumes "main JSON env = Some (t, Failed MergeFailed)"
  shows "mergeResponse (mergeEnv env) = Fails \<and> \<not> reportsMerged JSON (stateResponse (mergeEnv env))"
proof -
  obtain t0 r0 where m0: "mainUntilPR JSON env = (t0, r0)" by (cases "mainUntilPR JSON env")
  show ?thesis
  proof (cases r0)
    case (Exit f)
    with assms m0 mainUntilPR_exit [of JSON env f] show ?thesis by (simp add: main_def)
  next
    case Throw
    with assms m0 show ?thesis by (simp add: main_def)
  next
    case (Ret a)
    obtain b v n where a: "a = (b, v, n)" by (cases a)
    from assms m0 Ret a obtain checks elapsed where
      w: "waitForChecks JSON n (waitEnv env) = Some (checks, elapsed)"
      and fin: "finish (andThen (t0, Ret ()) (\<lambda>_. andThen checks (\<lambda>checksPass.
                  mainAfterChecks JSON env b v n checksPass))) = (t, Failed MergeFailed)"
      by (auto simp: main_def split: option.splits)
    obtain t1 r1 where c: "checks = (t1, r1)" by (cases checks)
    from waitForChecks_no_exit [OF w] c have noexit: "\<And>e. r1 \<noteq> Exit e" by simp
    from fin c noexit obtain pass where "r1 = Ret pass"
      by (cases r1) auto
    with fin c have "snd (mainAfterChecks JSON env b v n pass) = Exit MergeFailed"
      by (cases "snd (mainAfterChecks JSON env b v n pass)") auto
    then have "snd (mergeStep JSON n (mergeEnv env)) = Exit MergeFailed"
      unfolding mainAfterChecks_def
      by (auto elim!: andThen_ExitE split: if_splits)
    then show ?thesis
      by (cases "mergeResponse (mergeEnv env)")
         (auto simp: mergeStep_def mergeAttempt_failed mergeAttempt_succeeded ret_def exit1_def
            split: if_splits)
  qed
qed

text \<open>
  C2, as the script has it. When the merge command fails, the script views the state of the
  pull request, and goes on as after a merge when that view reports MERGED. The merge step
  exits with the merge failure exactly when the merge command failed and the view did not
  report MERGED: the view failed or printed nothing, its output could not be decoded, or the
  decoded state is another one. A run of the workflow ends with the merge failure, exit
  code 1, only then.
\<close>

theorem C2_merge_recheck:
  "(mergeResponse (mergeEnv env) = Fails
      \<longrightarrow> mergeStep JSON prNumber (mergeEnv env)
            = ([Exec (GhPrMerge prNumber), Exec (GhPrViewState prNumber)],
               if reportsMerged JSON (stateResponse (mergeEnv env)) then Ret () else Exit MergeFailed))
   \<and> (snd (mergeStep JSON prNumber (mergeEnv env)) = Exit f
        \<longleftrightarrow> f = MergeFailed \<and> mergeResponse (mergeEnv env) = Fails
              \<and> \<not> reportsMerged JSON (stateResponse (mergeEnv env)))
   \<and> (main JSON env = Some (t, Failed MergeFailed)
        \<longrightarrow> mergeResponse (mergeEnv env) = Fails
            \<and> \<not> reportsMerged JSON (stateResponse (mergeEnv env))
            \<and> exit_code (Failed MergeFailed) = 1)"
proof -
  have "mergeResponse (mergeEnv env) = Fails
      \<longrightarrow> mergeStep JSON prNumber (mergeEnv env)
            = ([Exec (GhPrMerge prNumber), Exec (GhPrViewState prNumber)],
               if reportsMerged JSON (stateResponse (mergeEnv env)) then Ret () else Exit MergeFailed)"
    by (simp add: mergeStep_def mergeAttempt_failed ret_def exit1_def)
  moreover have "snd (mergeStep JSON prNumber (mergeEnv env)) = Exit f
        \<longleftrightarrow> f = MergeFailed \<and> mergeResponse (mergeEnv env) = Fails
              \<and> \<not> reportsMerged JSON (stateResponse (mergeEnv env))"
    by (cases "mergeResponse (mergeEnv env)")
       (auto simp: mergeStep_def mergeAttempt_failed mergeAttempt_succeeded ret_def exit1_def)
  moreover have "main JSON env = Some (t, Failed MergeFailed)
        \<longrightarrow> mergeResponse (mergeEnv env) = Fails
            \<and> \<not> reportsMerged JSON (stateResponse (mergeEnv env))
            \<and> exit_code (Failed MergeFailed) = 1"
    using main_merge_failed by auto
  ultimately show ?thesis by blast
qed

text \<open>A run that fails at the merge, step by step.\<close>

lemma show_nat_7: "show_nat 7 = ''7''"
  by (simp add: show_nat.simps)

lemma mergeFailsEnv_untilPR:
  "mainUntilPR sampleJSON mergeFailsEnv
     = ([Exec GhVersion, Exec GhAuthStatus, Exec GitStatusPorcelain, Exec GitBranchShowCurrent,
         Exec GitLogLastMessage, Exec (GitPush ''feature/x''), Exec (GhPrList ''feature/x'')],
        Ret (''feature/x'', ''1.2.0'', ''7''))"
  by (simp add: mergeFailsEnv_def mainUntilPR_def execCommandSafely_def execCommand_Outputs
        helpKeywords_def hasUncommittedChanges_def getCurrentBranch_def getLatestCommitMessage_def
        getPackageVersion_def getOrCreatePR_def findExistingPR_def existingPrEnv_def sampleJSON_def
        show_nat_7 trim_def is_space_def ret_def)

lemma noChecksMergeable_pass:
  "pollCycle sampleJSON p ''7'' noChecksMergeableCycle
     = ([Exec (GhPrViewStatus ''7''), Exec (GhPrChecks ''7'')], Ret (Return True))"
  by (simp add: noChecksMergeableCycle_def pollCycle_def evaluateChecks_def execCommand_Outputs
        sampleJSON_def trim_def is_space_def ret_def)

lemma mergeFailsEnv_wait:
  "waitForChecks sampleJSON ''7'' (waitEnv mergeFailsEnv)
     = Some (([Exec GhVersion, Exec (GhPrViewStatus ''7''), Exec (GhPrChecks ''7'')], Ret True), 900)"
proof -
  have "execCommandSafely GhVersion True True (versionResponse (waitEnv mergeFailsEnv))
          = ([Exec GhVersion], Ret (Str ''gh version 2.40.0''))"
    by (simp add: mergeFailsEnv_def execCommandSafely_def execCommand_Outputs helpKeywords_def
          trim_def is_space_def ret_def)
  moreover have "pollLoop sampleJSON MAX_WAIT_TIME CHECK_INTERVAL ''7'' (\<lambda>_. noChecksMergeableCycle) 0 0 [Exec GhVersion]
          = Some (([Exec GhVersion, Exec (GhPrViewStatus ''7''), Exec (GhPrChecks ''7'')], Ret True), 900)"
    by (subst pollLoop.simps) (simp add: noChecksMergeable_pass MAX_WAIT_TIME_def, simp add: noChecksMergeableCycle_def)
  ultimately show ?thesis
    by (simp add: waitForChecks_def mergeFailsEnv_def)
qed

lemma mergeFailsEnv_run:
  "main sampleJSON mergeFailsEnv
     = Some ([Exec GhVersion, Exec GhAuthStatus, Exec GitStatusPorcelain, Exec GitBranchShowCurrent,
              Exec GitLogLastMessage, Exec (GitPush ''feature/x''), Exec (GhPrList ''feature/x''),
              Exec GhVersion, Exec (GhPrViewStatus ''7''), Exec (GhPrChecks ''7''),
              Exec (GhPrViewMergeable ''7''), Exec (GhPrMerge ''7''), Exec (GhPrViewState ''7'')],
             Failed MergeFailed)"
proof -
  have "mainAfterChecks sampleJSON mergeFailsEnv ''feature/x'' ''1.2.0'' ''7'' True
          = ([Exec (GhPrViewMergeable ''7''), Exec (GhPrMerge ''7''), Exec (GhPrViewState ''7'')],
             Exit MergeFailed)"
    by (simp add: mainAfterChecks_def checkMergeable_def mergeStep_def mergeAttempt_failed
          mergeFailsEnv_def stillOpenEnv_def execCommand_Fails reportsMerged_def sampleJSON_def
          silentOutput_def trim_def is_space_def ret_def exit1_def)
  then show ?thesis
    by (simp add: main_def mergeFailsEnv_untilPR mergeFailsEnv_wait)
qed

theorem C2_merge_recheck_witness:
  "(mergeResponse mergedAnywayEnv = Fails
    \<and> reportsMerged sampleJSON (stateResponse mergedAnywayEnv)
    \<and> mergeStep sampleJSON ''7'' mergedAnywayEnv
        = ([Exec (GhPrMerge ''7''), Exec (GhPrViewState ''7'')], Ret ()))
   \<and> (mergeResponse (mergeEnv mergeFailsEnv) = Fails
    \<and> \<not> reportsMerged sampleJSON (stateResponse (mergeEnv mergeFailsEnv))
    \<and> snd (mergeStep sampleJSON ''7'' (mergeEnv mergeFailsEnv)) = Exit MergeFailed
    \<and> (\<exists>t. main sampleJSON mergeFailsEnv = Some (t, Failed MergeFailed))
    \<and> exit_code (Failed MergeFailed) = 1)"
  using C2_merge_recheck [of "mergeFailsEnv \<lparr> mergeEnv := mergedAnywayEnv \<rparr>" sampleJSON "''7''" MergeFailed]
    C2_merge_recheck [of mergeFailsEnv sampleJSON "''7''" MergeFailed] mergeFailsEnv_run
  by (simp add: mergeFailsEnv_def stillOpenEnv_def mergedAnywayEnv_def sampleJSON_def reportsMerged_def
        silentOutput_def trim_def is_space_def)

text \<open>
  The claim C2 as it is written fails on the script: the exit with the merge failure is
  also reached when the view of the state fails, so that nothing was learnt about the pull
  request.
\<close>

theorem C2_counterexample:
  "stateResponse recheckFailsEnv = Fails
   \<and> mergeStep sampleJSON ''7'' recheckFailsEnv
       = ([Exec (GhPrMerge ''7''), Exec (GhPrViewState ''7'')], Exit MergeFailed)"
  by (simp add: recheckFailsEnv_def mergeStep_def mergeAttempt_failed reportsMerged_def
        silentOutput_def exit1_def)

section \<open>The release\<close>

text \<open>
  C8. When \<^verbatim>\<open>createRelease\<close> gets as far as asking for the tag and the answer is not
  empty, it has issued the checkout, the pull and the tag query and nothing else, no release
  is created, it returns without an error, and a run that ends there ends with exit code 0.
\<close>

theorem C8_existing_tag_skips_release:
  assumes "Exec (GitTagList (''v'' @ version)) \<in> set (fst (createRelease version env))"
    and "truthy (silentOutput (tagListResponse env))"
  shows "createRelease version env
           = ([Exec GitCheckoutBase, Exec GitPullOriginMain, Exec (GitTagList (''v'' @ version))], Ret ())
       \<and> exit_code (snd (finish (createRelease version env))) = 0"
  using assms
  by (cases "checkoutResponse env"; cases "pullResponse env"; cases "manifestAtRelease env")
     (simp_all add: createRelease_def execCommand_Outputs execCommand_Fails execCommand_silent
        getPackageVersion_def throw_def ret_def Let_def)

theorem C8_existing_tag_skips_release_witness:
  "Exec (GitTagList (''v'' @ ''1.2.0'')) \<in> set (fst (createRelease ''1.2.0'' tagExistsEnv))
   \<and> truthy (silentOutput (tagListResponse tagExistsEnv))
   \<and> createRelease ''1.2.0'' tagExistsEnv
       = ([Exec GitCheckoutBase, Exec GitPullOriginMain, Exec (GitTagList ''v1.2.0'')], Ret ())
   \<and> exit_code (snd (finish (createRelease ''1.2.0'' tagExistsEnv))) = 0"
  using C8_existing_tag_skips_release [of "''1.2.0''" tagExistsEnv]
  by (simp add: tagExistsEnv_def createRelease_def execCommand_Outputs
        getPackageVersion_def ret_def Let_def silentOutput_def trim_def is_space_def)

text \<open>
  C9 does not hold of the script. The file with the notes is removed after the release
  command that reads it has succeeded, and on no other path: when that command fails, the
  handler goes on to the release with inline notes, whether that then succeeds or throws,
  and no \<^verbatim>\<open>unlinkSync\<close> is called; the file that was written stays.
\<close>

theorem C9_notes_file_left_behind:
  "createRelease ''1.2.0'' fileReleaseFailsEnv
     = ([Exec GitCheckoutBase, Exec GitPullOriginMain, Exec (GitTagList ''v1.2.0''),
         WriteNotesFile ''Release v1.2.0'',
         Exec (GhReleaseCreateNotesFile ''v1.2.0''),
         Exec (GhReleaseCreateNotes ''v1.2.0'' ''Release v1.2.0'')], Ret ())
   \<and> createRelease ''1.2.0'' bothReleasesFailEnv
     = ([Exec GitCheckoutBase, Exec GitPullOriginMain, Exec (GitTagList ''v1.2.0''),
         WriteNotesFile ''Release v1.2.0'',
         Exec (GhReleaseCreateNotesFile ''v1.2.0''),
         Exec (GhReleaseCreateNotes ''v1.2.0'' ''Release v1.2.0'')], Throw)
   \<and> UnlinkNotesFile \<notin> set (fst (createRelease ''1.2.0'' fileReleaseFailsEnv))
   \<and> UnlinkNotesFile \<notin> set (fst (createRelease ''1.2.0'' bothReleasesFailEnv))"
  by (simp add: fileReleaseFailsEnv_def bothReleasesFailEnv_def createRelease_def execCommand_def
        getPackageVersion_def generateReleaseNotes_def tryCatch_def fsCall_def ret_def Let_def
        trim_def escapeShellString_def replace_all_def LF_def CR_def)

text \<open>The removal is attempted only after the release from the file has succeeded.\<close>

lemma unlink_only_after_file_release:
  "UnlinkNotesFile \<in> set (fst (createRelease version env)) \<Longrightarrow> releaseFromFileResponse env \<noteq> Fails"
  by (cases "checkoutResponse env"; cases "pullResponse env"; cases "manifestAtRelease env";
      cases "tagListResponse env"; cases "releaseFromNotesResponse env")
     (auto simp: createRelease_def execCommand_def getPackageVersion_def tryCatch_def fsCall_def
        throw_def ret_def Let_def split: if_splits)

section \<open>The prerequisites\<close>

text \<open>
  C10. When the tool answers, the login is there, the working tree is clean and the current
  branch is \<^verbatim>\<open>main\<close>, the run ends with exit code 1 after the local reads alone: the
  branch is not pushed and no pull request is looked up or created. It ends at the test of
  the branch, unless reading the manifest or the last commit message has thrown just before;
  then it ends at \<^verbatim>\<open>main().catch\<close>, with exit code 1 as well.
\<close>

theorem C10_on_base_branch:
  assumes "returnsTruthy (execCommandSafely GhVersion True True (ghVersionResponse env))"
    and "truthy (silentOutput (authResponse env))"
    and "statusResponse env = Outputs status" and "trim status = []"
    and "branchResponse env = Outputs branch" and "trim branch = ''main''"
  shows "\<exists>t out. main JSON env = Some (t, out)
           \<and> exit_code out = 1
           \<and> (manifest env \<noteq> None \<and> logResponse env \<noteq> Fails \<longrightarrow> out = Failed OnBaseBranch)
           \<and> set t \<subseteq> {Exec GhVersion, Exec GhAuthStatus, Exec GitStatusPorcelain,
                        Exec GitBranchShowCurrent, Exec GitLogLastMessage}"
proof -
  obtain v where v: "execCommandSafely GhVersion True True (ghVersionResponse env) = ([Exec GhVersion], Ret v)"
    using execCommandSafely_allowed by blast
  with assms(1) have tv: "truthy v" by (simp add: returnsTruthy_def)
  show ?thesis
    using v tv assms(2-6)
    by (cases "manifest env"; cases "logResponse env")
       (simp_all add: main_def mainUntilPR_def execCommand_silent execCommand_Outputs execCommand_Fails
          hasUncommittedChanges_def getCurrentBranch_def getLatestCommitMessage_def
          getPackageVersion_def throw_def ret_def exit1_def)
qed

theorem C10_on_base_branch_witness:
  "returnsTruthy (execCommandSafely GhVersion True True (ghVersionResponse onMainEnv))
   \<and> truthy (silentOutput (authResponse onMainEnv))
   \<and> statusResponse onMainEnv = Outputs [] \<and> trim [] = []
   \<and> branchResponse onMainEnv = Outputs ''main'' \<and> trim ''main'' = ''main''
   \<and> manifest onMainEnv \<noteq> None \<and> logResponse onMainEnv \<noteq> Fails
   \<and> (\<exists>t. main sampleJSON onMainEnv = Some (t, Failed OnBaseBranch)
           \<and> exit_code (Failed OnBaseBranch) = 1
           \<and> set t \<subseteq> {Exec GhVersion, Exec GhAuthStatus, Exec GitStatusPorcelain,
                        Exec GitBranchShowCurrent, Exec GitLogLastMessage})"
  using C10_on_base_branch [of onMainEnv "[]" "''main''" sampleJSON]
  by (simp add: onMainEnv_def returnsTruthy_def execCommandSafely_def execCommand_Outputs
        helpKeywords_def silentOutput_def trim_def is_space_def ret_def)

text \<open>The same run, step by step.\<close>

lemma onMainEnv_run:
  "main sampleJSON onMainEnv
     = Some ([Exec GhVersion, Exec GhAuthStatus, Exec GitStatusPorcelain, Exec GitBranchShowCurrent,
              Exec GitLogLastMessage], Failed OnBaseBranch)"
  by (simp add: main_def onMainEnv_def mainUntilPR_def execCommandSafely_def execCommand_Outputs
        helpKeywords_def hasUncommittedChanges_def getCurrentBranch_def getLatestCommitMessage_def
        getPackageVersion_def trim_def is_space_def ret_def exit1_def)

section \<open>A whole run\<close>

text \<open>
  A run on a feature branch with no pull request yet, one passing check and a mergeable pull
  request: one pull request is created, the checks are polled once, the pull request is
  merged, and the release is published from the notes file, which is then removed.
\<close>

lemma version_answer:
  "execCommandSafely GhVersion True True (Outputs ''gh version 2.40.0'')
     = ([Exec GhVersion], Ret (Str ''gh version 2.40.0''))"
  by (simp add: execCommandSafely_def execCommand_Outputs helpKeywords_def trim_def is_space_def ret_def)

lemma extractPRNumber_url:
  "extractPRNumber JSON ''https://github.com/johnnyphilology/scribe/pull/8'' b r = ([], Ret (Str ''8''))"
  by (simp add: extractPRNumber_def matched_def is_digit_def ret_def)

lemma newPrEnv_created:
  "getOrCreatePR sampleJSON ''feature/x'' ''1.2.0'' ''Add runes'' newPrEnv
     = ([Exec (GhPrList ''feature/x''),
         Exec (GhPrCreate (escapeShellString (prTitle ''1.2.0''))
                 (escapeShellString (prBody ''1.2.0'' ''Add runes'')) ''feature/x'')],
        Ret (Str ''8''))"
proof -
  have "findExistingPR sampleJSON ''feature/x'' (firstLookup newPrEnv) = ([Exec (GhPrList ''feature/x'')], Ret Null)"
    by (simp add: findExistingPR_def newPrEnv_def execCommand_Outputs sampleJSON_def trim_def
          is_space_def ret_def)
  moreover have "execCommand c True True (createRequest newPrEnv)
          = ([Exec c], Ret (Str ''https://github.com/johnnyphilology/scribe/pull/8''))" for c
    by (simp add: newPrEnv_def execCommand_Outputs trim_def is_space_def)
  ultimately show ?thesis
    by (simp add: getOrCreatePR_def extractPRNumber_url ret_def)
qed

lemma releaseRunEnv_untilPR:
  "mainUntilPR sampleJSON releaseRunEnv
     = ([Exec GhVersion, Exec GhAuthStatus, Exec GitStatusPorcelain, Exec GitBranchShowCurrent,
         Exec GitLogLastMessage, Exec (GitPush ''feature/x''), Exec (GhPrList ''feature/x''),
         Exec (GhPrCreate (escapeShellString (prTitle ''1.2.0''))
                 (escapeShellString (prBody ''1.2.0'' ''Add runes'')) ''feature/x'')],
        Ret (''feature/x'', ''1.2.0'', ''8''))"
proof -
  have "prEnv releaseRunEnv = newPrEnv"
    by (simp add: releaseRunEnv_def)
  then show ?thesis
    by (simp add: mainUntilPR_def newPrEnv_created version_answer execCommand_Outputs
          hasUncommittedChanges_def getCurrentBranch_def getLatestCommitMessage_def
          getPackageVersion_def releaseRunEnv_def trim_def is_space_def ret_def)
qed

lemma passedCycle_pass:
  "pollCycle sampleJSON p ''8'' passedCycle
     = ([Exec (GhPrViewStatus ''8''), Exec (GhPrChecks ''8'')], Ret (Return True))"
  by (simp add: passedCycle_def pollCycle_def evaluateChecks_def execCommand_Outputs
        sampleJSON_def trim_def is_space_def ret_def)

lemma releaseRunEnv_wait:
  "waitForChecks sampleJSON ''8'' (waitEnv releaseRunEnv)
     = Some (([Exec GhVersion, Exec (GhPrViewStatus ''8''), Exec (GhPrChecks ''8'')], Ret True), 900)"
proof -
  have "execCommandSafely GhVersion True True (versionResponse (waitEnv releaseRunEnv))
          = ([Exec GhVersion], Ret (Str ''gh version 2.40.0''))"
    by (simp add: releaseRunEnv_def execCommandSafely_def execCommand_Outputs helpKeywords_def
          trim_def is_space_def ret_def)
  moreover have "pollLoop sampleJSON MAX_WAIT_TIME CHECK_INTERVAL ''8'' (\<lambda>_. passedCycle) 0 0 [Exec GhVersion]
          = Some (([Exec GhVersion, Exec (GhPrViewStatus ''8''), Exec (GhPrChecks ''8'')], Ret True), 900)"
    by (subst pollLoop.simps) (simp add: passedCycle_pass MAX_WAIT_TIME_def, simp add: passedCycle_def)
  ultimately show ?thesis
    by (simp add: waitForChecks_def releaseRunEnv_def)
qed

lemma releaseRunEnv_run:
  "main sampleJSON releaseRunEnv
     = Some ([Exec GhVersion, Exec GhAuthStatus, Exec GitStatusPorcelain, Exec GitBranchShowCurrent,
              Exec GitLogLastMessage, Exec (GitPush ''feature/x''), Exec (GhPrList ''feature/x''),
              Exec (GhPrCreate (escapeShellString (prTitle ''1.2.0''))
                      (escapeShellString (prBody ''1.2.0'' ''Add runes'')) ''feature/x''),
              Exec GhVersion, Exec (GhPrViewStatus ''8''), Exec (GhPrChecks ''8''),
              Exec (GhPrViewMergeable ''8''), Exec (GhPrMerge ''8''),
              Exec GitCheckoutBase, Exec GitPullOriginMain, Exec (GitTagList ''v1.2.0''),
              MkdirTmp, WriteNotesFile (generateReleaseNotes ''1.2.0'' (Some sampleChangelog)),
              Exec (GhReleaseCreateNotesFile ''v1.2.0''), UnlinkNotesFile],
             Completed)"
proof -
  have "mainAfterChecks sampleJSON releaseRunEnv ''feature/x'' ''1.2.0'' ''8'' True
          = ([Exec (GhPrViewMergeable ''8''), Exec (GhPrMerge ''8''),
              Exec GitCheckoutBase, Exec GitPullOriginMain, Exec (GitTagList ''v1.2.0''),
              MkdirTmp, WriteNotesFile (generateReleaseNotes ''1.2.0'' (Some sampleChangelog)),
              Exec (GhReleaseCreateNotesFile ''v1.2.0''), UnlinkNotesFile], Ret ())"
    by (simp add: mainAfterChecks_def checkMergeable_def mergeStep_def mergeAttempt_succeeded
          createRelease_def getPackageVersion_def tryCatch_def fsCall_def
          releaseRunEnv_def mergesEnv_def firstReleaseEnv_def execCommand_Outputs sampleJSON_def Let_def
          trim_def is_space_def ret_def exit1_def)
  then show ?thesis
    by (simp add: main_def releaseRunEnv_untilPR releaseRunEnv_wait)
qed

text \<open>
  How a run that gets through every step before the release ends: as \<^verbatim>\<open>createRelease\<close>
  ends.
\<close>

lemma main_ends_as_release:
  assumes "mainUntilPR JSON env = (t0, Ret (b, v, n))"
    and "waitForChecks JSON n (waitEnv env) = Some ((t1, Ret True), elapsed)"
    and "checkMergeable JSON b n (mergeEnv env) = (t2, Ret ())"
    and "mergeStep JSON n (mergeEnv env) = (t3, Ret ())"
    and "createRelease v (releaseEnv env) = (t4, r)"
  shows "main JSON env = Some (finish (t0 @ t1 @ t2 @ t3 @ t4, r))"
  using assms by (simp add: main_def mainAfterChecks_def)

text \<open>The same run once more, now that the tag exists: no release is created, exit code 0.\<close>

lemma rerunEnv_run:
  "main sampleJSON rerunEnv
     = Some ([Exec GhVersion, Exec GhAuthStatus, Exec GitStatusPorcelain, Exec GitBranchShowCurrent,
              Exec GitLogLastMessage, Exec (GitPush ''feature/x''), Exec (GhPrList ''feature/x''),
              Exec (GhPrCreate (escapeShellString (prTitle ''1.2.0''))
                      (escapeShellString (prBody ''1.2.0'' ''Add runes'')) ''feature/x''),
              Exec GhVersion, Exec (GhPrViewStatus ''8''), Exec (GhPrChecks ''8''),
              Exec (GhPrViewMergeable ''8''), Exec (GhPrMerge ''8''),
              Exec GitCheckoutBase, Exec GitPullOriginMain, Exec (GitTagList ''v1.2.0'')],
             Completed)"
proof -
  have 0: "mainUntilPR sampleJSON rerunEnv = mainUntilPR sampleJSON releaseRunEnv"
    by (simp add: mainUntilPR_def rerunEnv_def cong: if_cong)
  have 1: "waitEnv rerunEnv = waitEnv releaseRunEnv" "mergeEnv rerunEnv = mergesEnv"
    "releaseEnv rerunEnv = tagExistsEnv"
    by (simp_all add: rerunEnv_def releaseRunEnv_def)
  have 2: "checkMergeable sampleJSON ''feature/x'' ''8'' mergesEnv = ([Exec (GhPrViewMergeable ''8'')], Ret ())"
    by (simp add: checkMergeable_def mergesEnv_def execCommand_Outputs sampleJSON_def
          trim_def is_space_def ret_def)
  have 3: "mergeStep sampleJSON ''8'' mergesEnv = ([Exec (GhPrMerge ''8'')], Ret ())"
    by (simp add: mergeStep_def mergeAttempt_succeeded mergesEnv_def ret_def)
  have 4: "createRelease ''1.2.0'' tagExistsEnv
             = ([Exec GitCheckoutBase, Exec GitPullOriginMain, Exec (GitTagList ''v1.2.0'')], Ret ())"
    by (simp add: tagExistsEnv_def createRelease_def execCommand_Outputs
          getPackageVersion_def ret_def Let_def trim_def is_space_def)
  show ?thesis
    using main_ends_as_release [of sampleJSON rerunEnv _ "''feature/x''" "''1.2.0''" "''8''"]
      releaseRunEnv_untilPR releaseRunEnv_wait 0 1 2 3 4
    by simp
qed

end
